theory Spec2Isabelle
  imports Complex_Main "HOL-Library.Word" "HOL-Library.Sublist" "HOL-Library.Multiset"
begin

section \<open>Huron BigTIFF support of OpenSlide (openslide-vendor-huron.c)\<close>

text \<open>
  A shallow embedding of \<^verbatim>\<open>src/src/openslide-vendor-huron.c\<close>: the detection
  predicate \<^verbatim>\<open>huron_detect\<close>, the comparator \<^verbatim>\<open>width_compare\<close>, the property
  setter \<^verbatim>\<open>huron_set_resolution_prop\<close>, the open routine \<^verbatim>\<open>huron_open\<close> and the
  tile callback \<^verbatim>\<open>read_tile\<close>. Functions of glib, libtiff and of the OpenSlide core
  that the file only calls are either parameters (the record \<open>host\<close>) or small
  models marked as such.
\<close>

subsection \<open>Errors\<close>

text \<open>
  A \<^verbatim>\<open>GError\<close> of the domain \<^verbatim>\<open>OPENSLIDE_ERROR\<close>: its code and its message. A C
  function that returns \<^verbatim>\<open>bool\<close> and sets \<^verbatim>\<open>err\<close> is a value of \<open>gerror + 'a\<close>.
\<close>

datatype openslide_error_code = OPENSLIDE_ERROR_FAILED | OPENSLIDE_ERROR_NO_VALUE

type_synonym gerror = "openslide_error_code \<times> string"

text \<open>The \<^verbatim>\<open>%d\<close> and \<^verbatim>\<open>%u\<close> conversions of the error messages, on non-negative values.\<close>

fun decimal :: "nat \<Rightarrow> string" where
  "decimal n =
     (if n < 10 then [''0123456789'' ! n]
      else decimal (n div 10) @ [''0123456789'' ! (n mod 10)])"

subsection \<open>Constants of tiffio.h and openslide.h\<close>

definition TIFFTAG_SUBFILETYPE :: nat where "TIFFTAG_SUBFILETYPE = 254"
definition TIFFTAG_IMAGEWIDTH :: nat where "TIFFTAG_IMAGEWIDTH = 256"
definition TIFFTAG_IMAGELENGTH :: nat where "TIFFTAG_IMAGELENGTH = 257"
definition TIFFTAG_COMPRESSION :: nat where "TIFFTAG_COMPRESSION = 259"
definition TIFFTAG_IMAGEDESCRIPTION :: nat where "TIFFTAG_IMAGEDESCRIPTION = 270"
definition TIFFTAG_MAKE :: nat where "TIFFTAG_MAKE = 271"
definition TIFFTAG_MODEL :: nat where "TIFFTAG_MODEL = 272"
definition TIFFTAG_ROWSPERSTRIP :: nat where "TIFFTAG_ROWSPERSTRIP = 278"
definition TIFFTAG_XRESOLUTION :: nat where "TIFFTAG_XRESOLUTION = 282"
definition TIFFTAG_RESOLUTIONUNIT :: nat where "TIFFTAG_RESOLUTIONUNIT = 296"

definition RESUNIT_INCH :: "64 word" where "RESUNIT_INCH = 2"
definition RESUNIT_CENTIMETER :: "64 word" where "RESUNIT_CENTIMETER = 3"

definition OPENSLIDE_PROPERTY_NAME_MPP_X :: string where
  "OPENSLIDE_PROPERTY_NAME_MPP_X = ''openslide.mpp-x''"

definition MACRO_DESCRIPTION :: string where "MACRO_DESCRIPTION = ''macro''"
definition LABEL_DESCRIPTION :: string where "LABEL_DESCRIPTION = ''label''"

subsection \<open>The tifflike directory list\<close>

text \<open>
  A C \<^verbatim>\<open>double\<close> is identified by its IEEE 754 binary64 bit pattern, so that every
  value a tag can hold (signed zeros, infinities, NaNs) is a value here. The file does
  one operation on doubles, the division of line 246; it is the C implementation's and
  is a parameter (\<open>double_divide\<close> of the host below). \<open>double_10000\<close> is the literal
  \<^verbatim>\<open>10000.0\<close>.
\<close>

datatype double = Binary64 "64 word"

definition double_10000 :: double where
  "double_10000 = Binary64 0x40C3880000000000"

text \<open>
  Modelled from the spec: the host's low-level container-directory parser
  (\<^verbatim>\<open>struct _openslide_tifflike\<close>, openslide-decode-tifflike.c), "get current
  directory's numeric-tag value (typed: integer, float, string, buffer); is this
  directory tiled query". A directory answers each typed lookup by tag number with a
  value or an error; a directory index outside the list has no value.
\<close>

record tifflike_dir =
  tl_tiled :: bool
  tl_uint :: "nat \<Rightarrow> gerror + 64 word"
  tl_float :: "nat \<Rightarrow> gerror + double"
  tl_buffer :: "nat \<Rightarrow> gerror + string"

type_synonym tifflike = "tifflike_dir list"

definition no_such_value :: gerror where
  "no_such_value = (OPENSLIDE_ERROR_NO_VALUE, ''No such value'')"

definition tifflike_is_tiled :: "tifflike \<Rightarrow> int \<Rightarrow> bool" where
  "tifflike_is_tiled tlike dir =
     (0 \<le> dir \<and> nat dir < length tlike \<and> tl_tiled (tlike ! nat dir))"

definition tifflike_get_uint :: "tifflike \<Rightarrow> int \<Rightarrow> nat \<Rightarrow> gerror + 64 word" where
  "tifflike_get_uint tlike dir tag =
     (if 0 \<le> dir \<and> nat dir < length tlike then tl_uint (tlike ! nat dir) tag
      else Inl no_such_value)"

definition tifflike_get_float :: "tifflike \<Rightarrow> int \<Rightarrow> nat \<Rightarrow> gerror + double" where
  "tifflike_get_float tlike dir tag =
     (if 0 \<le> dir \<and> nat dir < length tlike then tl_float (tlike ! nat dir) tag
      else Inl no_such_value)"

subsection \<open>huron\_detect\<close>

text \<open>
  Lines 165--211. \<open>None\<close> is the null \<^verbatim>\<open>tl\<close> (here \<open>tlike\<close>). The function returns at line 182; the
  statements after that \<^verbatim>\<open>return true\<close> (the maker and model checks, lines 184--210)
  are never executed and so have no part in the value computed here.
\<close>

definition huron_detect :: "string \<Rightarrow> tifflike option \<Rightarrow> gerror + unit" where
  "huron_detect filename tlike =
     (case tlike of
        None \<Rightarrow> Inl (OPENSLIDE_ERROR_FAILED, ''Not a TIFF file'')
      | Some t \<Rightarrow>
          if \<not> tifflike_is_tiled t 0 then Inl (OPENSLIDE_ERROR_FAILED, ''TIFF is not tiled'')
          else Inr ())"

subsection \<open>The TIFF handle, levels and the image object\<close>

text \<open>
  What libtiff reports for one directory, as far as \<^verbatim>\<open>huron_open\<close> asks:
  \<^verbatim>\<open>TIFFGetField\<close> of a tag is \<open>None\<close> when it returns 0, \<open>tiled\<close> is
  \<^verbatim>\<open>TIFFIsTiled\<close>. An open handle has a current directory (the first component) and
  the directories that \<^verbatim>\<open>TIFFReadDirectory\<close> reads after it, in file order;
  \<^verbatim>\<open>TIFFReadDirectory\<close> returns 0 when that list is exhausted. Directory numbers
  (\<^verbatim>\<open>tdir_t\<close>) are natural numbers: libtiff reads no more directories than the type holds.
\<close>

record tiff_dir =
  subfiletype :: "32 word option"
  tiled :: bool
  imagewidth :: "32 word option"
  imagelength :: "32 word option"
  rowsperstrip :: "32 word option"
  imagedescription :: "string option"
  compression :: "16 word option"

type_synonym tiff = "tiff_dir \<times> tiff_dir list"

text \<open>\<^verbatim>\<open>struct _openslide_level\<close> and \<^verbatim>\<open>struct _openslide_tiff_level\<close> (openslide-private.h,
  openslide-decode-tiff.h): the fields this file reads; an \<^verbatim>\<open>int64_t\<close> is a
  64-bit word whose value is read with \<open>sint\<close>.\<close>

type_synonym int64_t = "64 word"

record openslide_level =
  level_w :: int64_t
  level_h :: int64_t

record tiff_level =
  dir :: nat
  image_w :: int64_t
  image_h :: int64_t
  tile_w :: int64_t
  tile_h :: int64_t
  tiles_across :: int64_t
  tiles_down :: int64_t

text \<open>The grid that \<^verbatim>\<open>_openslide_grid_create_simple\<close> builds from its arguments
  (tiles across, tiles down, tile width, tile height) with \<^verbatim>\<open>read_tile\<close> as callback.\<close>

datatype grid = Grid_simple int64_t int64_t int64_t int64_t

text \<open>\<^verbatim>\<open>struct level\<close> (lines 61--65). \<open>level_ptr\<close> is the identity of the allocated
  block: the number of the directory that was current when line 341 allocated it.\<close>

record level =
  level_ptr :: nat
  base :: openslide_level
  tiffl :: tiff_level
  grid :: grid

text \<open>\<^verbatim>\<open>struct huron_ops_data\<close> (lines 57--59); a tiffcache is named by the file it was
  created for. \<open>Huron_ops\<close> is the table \<^verbatim>\<open>huron_ops\<close> (lines 160--163).\<close>

record huron_ops_data =
  tc :: string

datatype openslide_ops = Huron_ops

text \<open>The fields of \<^verbatim>\<open>openslide_t\<close> that the file reads or writes; a null pointer is
  \<open>None\<close>, a hash table is a map.\<close>

record openslide =
  levels :: "level list option"
  level_count :: int
  ops_data :: "huron_ops_data option"
  ops :: "openslide_ops option"
  properties :: "string \<rightharpoonup> string"
  associated_images :: "string \<rightharpoonup> nat"

text \<open>What \<^verbatim>\<open>huron_open\<close> allocates or checks out and has to give back: the pointer
  array, the tiffcache, the TIFF handle taken from it, each \<^verbatim>\<open>struct level\<close> and its
  grid (by \<open>level_ptr\<close>), and the private data.\<close>

datatype resource =
  Level_array | Tiffcache | Tiff_handle | Level_struct nat | Grid nat | Ops_data

record 'h open_state =
  level_array :: "level list"
  osr :: openslide
  quickhash1 :: 'h
  live :: "resource set"

subsection \<open>The functions the file calls\<close>

text \<open>
  Functions of the OpenSlide core, libtiff and glib that are called but not defined in
  the file, as parameters:
  \<^item> \<open>tiffcache_get\<close>: \<^verbatim>\<open>_openslide_tiffcache_create\<close> followed by
    \<^verbatim>\<open>_openslide_tiffcache_get\<close>, the handle or the error;
  \<^item> \<open>codec_configured\<close>: \<^verbatim>\<open>TIFFIsCODECConfigured\<close>;
  \<^item> \<open>tiff_level_init\<close>: \<^verbatim>\<open>_openslide_tiff_level_init\<close> on the current directory
    and its number, the populated geometry or the error;
  \<^item> \<open>add_associated_image\<close>: \<^verbatim>\<open>_openslide_tiff_add_associated_image\<close> (name,
    tiffcache, directory number);
  \<^item> \<open>ptr_array_sort\<close>: \<^verbatim>\<open>g_ptr_array_sort\<close>, the array after the call;
  \<^item> \<open>init_properties_and_hash\<close>: \<^verbatim>\<open>_openslide_tifflike_init_properties_and_hash\<close>
    (tifflike, hash, lowest-resolution directory, property directory, the properties
    so far), the properties and hash after the call or the error;
  \<^item> \<open>double_divide\<close>: the quotient \<^verbatim>\<open>x / y\<close> of two doubles;
  \<^item> \<open>format_double\<close>: \<^verbatim>\<open>_openslide_format_double\<close>.
\<close>

record 'h host =
  tiffcache_get :: "string \<Rightarrow> gerror + tiff"
  codec_configured :: "16 word \<Rightarrow> bool"
  tiff_level_init :: "tiff_dir \<Rightarrow> nat \<Rightarrow> gerror + (openslide_level \<times> tiff_level)"
  add_associated_image :: "string \<Rightarrow> string \<Rightarrow> nat \<Rightarrow> gerror + unit"
  ptr_array_sort :: "(level \<Rightarrow> level \<Rightarrow> int) \<Rightarrow> level list \<Rightarrow> level list"
  init_properties_and_hash ::
    "tifflike \<Rightarrow> 'h \<Rightarrow> nat \<Rightarrow> nat \<Rightarrow> (string \<rightharpoonup> string) \<Rightarrow> gerror + ((string \<rightharpoonup> string) \<times> 'h)"
  double_divide :: "double \<Rightarrow> double \<Rightarrow> double"
  format_double :: "double \<Rightarrow> string"

text \<open>glib's \<^verbatim>\<open>g_strstrip\<close> ("Removes leading and trailing whitespace from a string",
  line 302) is \<^verbatim>\<open>g_strchomp (g_strchug (s))\<close> with the white space of
  \<^verbatim>\<open>g_ascii_isspace\<close>: space, tab, line feed, form feed and carriage return.
  \<^verbatim>\<open>g_str_has_prefix\<close> is \<open>prefix\<close>.\<close>

definition g_ascii_isspace :: "char \<Rightarrow> bool" where
  "g_ascii_isspace c = (c \<in> set [CHR 0x20, CHR 0x09, CHR 0x0A, CHR 0x0C, CHR 0x0D])"

definition g_strchug :: "string \<Rightarrow> string" where
  "g_strchug s = dropWhile g_ascii_isspace s"

definition g_strchomp :: "string \<Rightarrow> string" where
  "g_strchomp s = rev (dropWhile g_ascii_isspace (rev s))"

definition g_strstrip :: "string \<Rightarrow> string" where
  "g_strstrip s = g_strchomp (g_strchug s)"

subsection \<open>width\_compare and the resolution property\<close>

text \<open>Lines 213--224.\<close>

definition width_compare :: "level \<Rightarrow> level \<Rightarrow> int" where
  "width_compare la lb =
     (if sint (image_w (tiffl la)) > sint (image_w (tiffl lb)) then - 1
      else if image_w (tiffl la) = image_w (tiffl lb) then 0
      else 1)"

text \<open>Lines 226--249. \<open>None\<close> for the unit is the \<^verbatim>\<open>return\<close> of line 239.\<close>

definition huron_set_resolution_prop ::
  "'h host \<Rightarrow> openslide \<Rightarrow> tifflike \<Rightarrow> int \<Rightarrow> nat \<Rightarrow> string \<Rightarrow> openslide" where
  "huron_set_resolution_prop h o_s tlike d tag property_name =
     (let resunit =
        (case tifflike_get_uint tlike d TIFFTAG_RESOLUTIONUNIT of
           Inr u \<Rightarrow> Some u
         | Inl e \<Rightarrow> if fst e = OPENSLIDE_ERROR_NO_VALUE then Some RESUNIT_INCH else None)
      in case resunit of
           None \<Rightarrow> o_s
         | Some u \<Rightarrow>
             (case tifflike_get_float tlike d tag of
                Inl e \<Rightarrow> o_s
              | Inr res \<Rightarrow>
                  if u = RESUNIT_CENTIMETER
                  then o_s\<lparr>properties :=
                         (properties o_s)(property_name \<mapsto>
                            format_double h (double_divide h double_10000 res))\<rparr>
                  else o_s))"

text \<open>Lines 251--258.\<close>

definition huron_set_props :: "'h host \<Rightarrow> openslide \<Rightarrow> tifflike \<Rightarrow> int \<Rightarrow> openslide" where
  "huron_set_props h o_s tlike d =
     huron_set_resolution_prop h o_s tlike d TIFFTAG_XRESOLUTION OPENSLIDE_PROPERTY_NAME_MPP_X"

subsection \<open>huron\_open\<close>

text \<open>
  The body of the \<^verbatim>\<open>do \<dots> while (TIFFReadDirectory(tiff))\<close> loop either reaches
  the loop condition (by \<^verbatim>\<open>continue\<close> or by running to its end) or jumps to the label
  \<^verbatim>\<open>FAIL\<close> with \<^verbatim>\<open>err\<close> set.
\<close>

datatype 'a control = Proceed 'a | Goto_FAIL gerror 'a

text \<open>The macro \<^verbatim>\<open>GET_FIELD_OR_FAIL\<close> (lines 46--55) sets this error before its
  \<^verbatim>\<open>goto FAIL\<close>.\<close>

definition required_tag_error :: "nat \<Rightarrow> gerror" where
  "required_tag_error tag =
     (OPENSLIDE_ERROR_FAILED, ''Cannot get required TIFF tag: '' @ decimal tag)"

text \<open>The three calls of \<^verbatim>\<open>_openslide_tiff_add_associated_image\<close> (lines 305--315): on
  success the image is in \<^verbatim>\<open>osr->associated_images\<close> under its name.\<close>

definition add_image ::
  "'h host \<Rightarrow> string \<Rightarrow> string \<Rightarrow> nat \<Rightarrow> 'h open_state \<Rightarrow> 'h open_state control" where
  "add_image h name filename d_no s =
     (case add_associated_image h name filename d_no of
        Inl e \<Rightarrow> Goto_FAIL e s
      | Inr _ \<Rightarrow>
          Proceed (s\<lparr>osr := (osr s)\<lparr>associated_images :=
                     (associated_images (osr s))(name \<mapsto> d_no)\<rparr>\<rparr>))"

text \<open>
  The loop body, lines 276--359, for the current directory \<open>d\<close> with number \<open>d_no\<close>.
  The locals \<^verbatim>\<open>iw\<close>, \<^verbatim>\<open>ih\<close>, \<^verbatim>\<open>ir\<close> are \<^verbatim>\<open>int64_t\<close> holding a \<^verbatim>\<open>uint32_t\<close>, that is
  \<open>uint\<close> of the tag. When \<^verbatim>\<open>_openslide_tiff_level_init\<close> fails, the level allocated
  at line 341 is freed at line 348 before the jump.
\<close>

definition huron_directory ::
  "'h host \<Rightarrow> string \<Rightarrow> nat \<Rightarrow> tiff_dir \<Rightarrow> 'h open_state \<Rightarrow> 'h open_state control" where
  "huron_directory h filename d_no d s =
     (case subfiletype d of
        None \<Rightarrow> Proceed s
      | Some sft \<Rightarrow>
          if \<not> tiled d then
            (case imagewidth d of
               None \<Rightarrow> Goto_FAIL (required_tag_error TIFFTAG_IMAGEWIDTH) s
             | Some iw \<Rightarrow>
            (case imagelength d of
               None \<Rightarrow> Goto_FAIL (required_tag_error TIFFTAG_IMAGELENGTH) s
             | Some ih \<Rightarrow>
            (case rowsperstrip d of
               None \<Rightarrow> Goto_FAIL (required_tag_error TIFFTAG_ROWSPERSTRIP) s
             | Some ir \<Rightarrow>
                 if uint ir \<noteq> 1 \<or> uint iw \<le> 0 \<or> uint ih \<le> 0 then Proceed s
                 else
                   (case imagedescription d of
                      None \<Rightarrow> Proceed s
                    | Some desc \<Rightarrow>
                        let image_desc = g_strstrip desc in
                        if d_no = 1 \<and> sft = 0 then add_image h ''thumbnail'' filename d_no s
                        else if prefix LABEL_DESCRIPTION image_desc
                          then add_image h ''label'' filename d_no s
                        else if prefix MACRO_DESCRIPTION image_desc
                          then add_image h ''macro'' filename d_no s
                        else Proceed s))))
          else
            (case compression d of
               None \<Rightarrow> Goto_FAIL (OPENSLIDE_ERROR_FAILED, ''Can't read compression scheme'') s
             | Some c \<Rightarrow>
                 if \<not> codec_configured h c
                 then Goto_FAIL (OPENSLIDE_ERROR_FAILED,
                        ''Unsupported TIFF compression: '' @ decimal (unat c)) s
                 else
                   (case tiff_level_init h d d_no of
                      Inl e \<Rightarrow>
                        Goto_FAIL e
                          (s\<lparr>live := insert (Level_struct d_no) (live s) - {Level_struct d_no}\<rparr>)
                    | Inr (b, tfl) \<Rightarrow>
                        Proceed
                          (s\<lparr>level_array := level_array s @
                               [\<lparr>level_ptr = d_no, base = b, tiffl = tfl,
                                 grid = Grid_simple (tiles_across tfl) (tiles_down tfl)
                                          (tile_w tfl) (tile_h tfl)\<rparr>],
                             live := live s \<union> {Level_struct d_no, Grid d_no}\<rparr>))))"

text \<open>The loop, lines 275--360: the body runs for the current directory, then
  \<^verbatim>\<open>TIFFReadDirectory\<close> moves to the next one or ends the loop.\<close>

fun scan_directories ::
  "'h host \<Rightarrow> string \<Rightarrow> nat \<Rightarrow> tiff_dir \<Rightarrow> tiff_dir list \<Rightarrow> 'h open_state
     \<Rightarrow> 'h open_state control" where
  "scan_directories h filename d_no d [] s = huron_directory h filename d_no d s"
| "scan_directories h filename d_no d (d' # rest) s =
     (case huron_directory h filename d_no d s of
        Goto_FAIL e s' \<Rightarrow> Goto_FAIL e s'
      | Proceed s' \<Rightarrow> scan_directories h filename (Suc d_no) d' rest s')"

text \<open>
  How a call of \<^verbatim>\<open>huron_open\<close> ends: it returns true, it returns false with \<^verbatim>\<open>err\<close> set,
  it reads \<^verbatim>\<open>pdata\<close> outside the array (line 366, undefined behaviour in C), or a
  \<^verbatim>\<open>g_assert\<close> aborts the process (lines 385--386).
\<close>

datatype 'a outcome =
  Returns_true 'a | Returns_false gerror 'a | Out_of_bounds_read | Assertion_abort

text \<open>The label \<^verbatim>\<open>FAIL\<close>, lines 400--413. Every jump to it happens while
  \<^verbatim>\<open>level_array\<close> is non-null (it is set to null at line 378 only), so the loop over
  the array always runs: each level's grid is destroyed and the level freed, then the
  array, then the handle is put back and the tiffcache destroyed.\<close>

definition huron_FAIL :: "gerror \<Rightarrow> 'h open_state \<Rightarrow> 'h open_state outcome" where
  "huron_FAIL e s =
     Returns_false e
       (s\<lparr>level_array := [],
          live := foldl (\<lambda>X l. X - {Grid (level_ptr l)} - {Level_struct (level_ptr l)})
                    (live s) (level_array s)
                  - {Level_array} - {Tiff_handle} - {Tiffcache}\<rparr>)"

text \<open>
  Lines 260--414. \<^verbatim>\<open>level_array->len - 1\<close> is unsigned: for an empty array the index
  of line 366 is \<open>2^32 - 1\<close>, outside the array. On success the array's storage becomes
  \<^verbatim>\<open>osr->levels\<close>, the handle is put back and the tiffcache is kept in the private data;
  the properties are set from directory 0 (line 396).
\<close>

definition huron_open ::
  "'h host \<Rightarrow> openslide \<Rightarrow> string \<Rightarrow> tifflike \<Rightarrow> 'h \<Rightarrow> 'h open_state outcome" where
  "huron_open h o_s filename tlike qh =
     (let s0 = \<lparr>level_array = [], osr = o_s, quickhash1 = qh, live = {Level_array, Tiffcache}\<rparr>
      in case tiffcache_get h filename of
           Inl e \<Rightarrow> huron_FAIL e s0
         | Inr (d, rest) \<Rightarrow>
             (case scan_directories h filename 0 d rest
                     (s0\<lparr>live := insert Tiff_handle (live s0)\<rparr>) of
                Goto_FAIL e s \<Rightarrow> huron_FAIL e s
              | Proceed s \<Rightarrow>
                  let sorted = ptr_array_sort h width_compare (level_array s);
                      len = length (level_array s)
                  in if len = 0 then Out_of_bounds_read
                     else
                       let top_level = sorted ! (len - 1)
                       in (case init_properties_and_hash h tlike (quickhash1 s)
                                   (dir (tiffl top_level)) 0 (properties (osr s)) of
                             Inl e \<Rightarrow> huron_FAIL e (s\<lparr>level_array := sorted\<rparr>)
                           | Inr (props, qh') \<Rightarrow>
                               if ops_data (osr s) = None \<and> levels (osr s) = None
                               then
                                 Returns_true
                                   (s\<lparr>level_array := [],
                                      quickhash1 := qh',
                                      osr := huron_set_props h
                                        ((osr s)\<lparr>properties := props,
                                                 levels := Some sorted,
                                                 level_count := int len,
                                                 ops_data := Some \<lparr>tc = filename\<rparr>,
                                                 ops := Some Huron_ops\<rparr>) tlike 0,
                                      live := insert Ops_data (live s - {Tiff_handle})\<rparr>)
                               else Assertion_abort)))"

subsection \<open>read\_tile\<close>

text \<open>
  A tile is cached under its level (the pointer), column and row. Pixel data is a list
  of \<^verbatim>\<open>uint32_t\<close>. The slice log records \<^verbatim>\<open>g_slice_alloc\<close> and \<^verbatim>\<open>g_slice_free1\<close>
  with their byte counts, \<open>painted\<close> the surfaces painted on the cairo context, and
  \<open>entry_refs\<close> counts the cache entries held and not yet released.

  Modelled from the spec: the host's tile cache (openslide-cache.c), "get(level, col,
  row) gives an optional buffer and a release handle; put(level, col, row, buffer, size)
  gives a release handle": a map from keys to buffers with their sizes.
\<close>

type_synonym tile_key = "nat \<times> int64_t \<times> int64_t"
type_synonym tiledata = "32 word list"

datatype slice_event = Slice_alloc "64 word" | Slice_free "64 word"

record tile_state =
  cache :: "tile_key \<rightharpoonup> tiledata \<times> 64 word"
  entry_refs :: nat
  slice_log :: "slice_event list"
  painted :: "tiledata list"

text \<open>\<^verbatim>\<open>_openslide_tiff_read_tile\<close> and \<^verbatim>\<open>_openslide_tiff_clip_tile\<close>
  (openslide-decode-tiff.c) as parameters: the buffer after the call, or the error.\<close>

record tile_host =
  tiff_read_tile :: "tiff_level \<Rightarrow> tiff \<Rightarrow> int64_t \<Rightarrow> int64_t \<Rightarrow> gerror + tiledata"
  tiff_clip_tile :: "tiff_level \<Rightarrow> tiledata \<Rightarrow> int64_t \<Rightarrow> int64_t \<Rightarrow> gerror + tiledata"

text \<open>Lines 122--134: paint the buffer, release the cache entry, return true.\<close>

definition draw_tile :: "tile_state \<Rightarrow> tiledata \<Rightarrow> (gerror + unit) \<times> tile_state" where
  "draw_tile w td = (Inr (), w\<lparr>painted := painted w @ [td], entry_refs := entry_refs w - 1\<rparr>)"

text \<open>Lines 80--135. The byte count \<^verbatim>\<open>tw * th * 4\<close> is computed in 64 bits.\<close>

definition read_tile ::
  "tile_host \<Rightarrow> tile_state \<Rightarrow> level \<Rightarrow> int64_t \<Rightarrow> int64_t \<Rightarrow> tiff
     \<Rightarrow> (gerror + unit) \<times> tile_state" where
  "read_tile th w l tile_col tile_row tif =
     (let tfl = tiffl l; tw = tile_w tfl; t_h = tile_h tfl;
          key = (level_ptr l, tile_col, tile_row)
      in case cache w key of
           Some (tiledata, sz) \<Rightarrow> draw_tile (w\<lparr>entry_refs := entry_refs w + 1\<rparr>) tiledata
         | None \<Rightarrow>
             let w1 = w\<lparr>slice_log := slice_log w @ [Slice_alloc (tw * t_h * 4)]\<rparr>
             in (case tiff_read_tile th tfl tif tile_col tile_row of
                   Inl e \<Rightarrow>
                     (Inl e, w1\<lparr>slice_log := slice_log w1 @ [Slice_free (tw * t_h * 4)]\<rparr>)
                 | Inr decoded \<Rightarrow>
                     (case tiff_clip_tile th tfl decoded tile_col tile_row of
                        Inl e \<Rightarrow>
                          (Inl e, w1\<lparr>slice_log := slice_log w1 @ [Slice_free (tw * t_h * 4)]\<rparr>)
                      | Inr clipped \<Rightarrow>
                          draw_tile
                            (w1\<lparr>cache := (cache w1)(key \<mapsto> (clipped, tw * t_h * 4)),
                                entry_refs := entry_refs w1 + 1\<rparr>)
                            clipped)))"

subsection \<open>Contracts used in the proofs\<close>

text \<open>
  What \<^verbatim>\<open>g_ptr_array_sort\<close> is relied on for with the comparator \<open>width_compare\<close>:
  the array afterwards holds the same pointers, and no element is followed by one that
  the comparator orders strictly before it. Nothing is assumed about the order of
  elements that compare equal.
\<close>

definition sorts_by_width ::
  "((level \<Rightarrow> level \<Rightarrow> int) \<Rightarrow> level list \<Rightarrow> level list) \<Rightarrow> bool" where
  "sorts_by_width srt =
     (\<forall>xs. mset (srt width_compare xs) = mset xs \<and>
           sorted_wrt (\<lambda>a b. width_compare a b \<le> 0) (srt width_compare xs))"

text \<open>The resources held for the levels of an array, and the states in which every
  live resource is the array, the tiffcache, the handle or belongs to a level of the
  array.\<close>

definition level_resources :: "level list \<Rightarrow> resource set" where
  "level_resources ls = (\<Union>l\<in>set ls. {Level_struct (level_ptr l), Grid (level_ptr l)})"

definition accounted :: "'h open_state \<Rightarrow> bool" where
  "accounted s =
     (live s \<subseteq> {Level_array, Tiffcache, Tiff_handle} \<union> level_resources (level_array s))"

text \<open>The state in which \<^verbatim>\<open>huron_open\<close> enters its loop (after line 272).\<close>

definition loop_entry :: "openslide \<Rightarrow> 'h \<Rightarrow> 'h open_state" where
  "loop_entry o_s qh =
     \<lparr>level_array = [], osr = o_s, quickhash1 = qh,
      live = {Tiff_handle, Level_array, Tiffcache}\<rparr>"

subsection \<open>Concrete hosts and files\<close>

text \<open>A host for the concrete inputs below: it opens the given TIFF for every file
  name, decodes uncompressed (1) and JPEG (7) data, takes a level's geometry from the
  directory's width, accepts every associated image, sorts by insertion, leaves the
  properties as they are and prepends the lowest-resolution directory to the hash. Its
  division of doubles has the one quotient the inputs below need, 10000.0 / 500.0 =
  20.0 (exact in binary64), and a NaN for every other pair; it prints 20.0 as "20".\<close>

definition double_500 :: double where
  "double_500 = Binary64 0x407F400000000000"

definition double_20 :: double where
  "double_20 = Binary64 0x4034000000000000"

definition example_divide :: "double \<Rightarrow> double \<Rightarrow> double" where
  "example_divide x y =
     (if x = double_10000 \<and> y = double_500 then double_20 else Binary64 0x7FF8000000000000)"

fun insert_by :: "('a \<Rightarrow> 'a \<Rightarrow> int) \<Rightarrow> 'a \<Rightarrow> 'a list \<Rightarrow> 'a list" where
  "insert_by cmp x [] = [x]"
| "insert_by cmp x (y # ys) = (if cmp x y \<le> 0 then x # y # ys else y # insert_by cmp x ys)"

definition insertion_sort :: "('a \<Rightarrow> 'a \<Rightarrow> int) \<Rightarrow> 'a list \<Rightarrow> 'a list" where
  "insertion_sort cmp xs = foldr (insert_by cmp) xs []"

definition example_level :: "nat \<Rightarrow> 32 word \<Rightarrow> level" where
  "example_level n w =
     \<lparr>level_ptr = n, base = \<lparr>level_w = ucast w, level_h = ucast w\<rparr>,
      tiffl = \<lparr>dir = n, image_w = ucast w, image_h = ucast w, tile_w = 256, tile_h = 256,
               tiles_across = 4, tiles_down = 4\<rparr>,
      grid = Grid_simple 4 4 256 256\<rparr>"

definition geometry_of :: "tiff_dir \<Rightarrow> nat \<Rightarrow> gerror + (openslide_level \<times> tiff_level)" where
  "geometry_of d n =
     (case imagewidth d of
        None \<Rightarrow> Inl (required_tag_error TIFFTAG_IMAGEWIDTH)
      | Some w \<Rightarrow> Inr (base (example_level n w), tiffl (example_level n w)))"

definition example_host :: "tiff \<Rightarrow> nat list host" where
  "example_host t =
     \<lparr>tiffcache_get = (\<lambda>_. Inr t),
      codec_configured = (\<lambda>c. c = 1 \<or> c = 7),
      tiff_level_init = geometry_of,
      add_associated_image = (\<lambda>_ _ _. Inr ()),
      ptr_array_sort = insertion_sort,
      init_properties_and_hash = (\<lambda>_ q lowest _ props. Inr (props, lowest # q)),
      double_divide = example_divide,
      format_double = (\<lambda>x. if x = double_20 then ''20'' else ''other'')\<rparr>"

definition new_osr :: openslide where
  "new_osr = \<lparr>levels = None, level_count = 0, ops_data = None, ops = None,
              properties = Map.empty, associated_images = Map.empty\<rparr>"

text \<open>A tiled directory (subfile type, width, compression) and a stripped one
  (subfile type, rows per strip, description) of 100 by 100 pixels.\<close>

definition tiled_dir :: "32 word option \<Rightarrow> 32 word \<Rightarrow> 16 word \<Rightarrow> tiff_dir" where
  "tiled_dir sft w c =
     \<lparr>subfiletype = sft, tiled = True, imagewidth = Some w, imagelength = Some w,
      rowsperstrip = None, imagedescription = None, compression = Some c\<rparr>"

definition strip_dir :: "32 word option \<Rightarrow> 32 word option \<Rightarrow> string option \<Rightarrow> tiff_dir" where
  "strip_dir sft rps desc =
     \<lparr>subfiletype = sft, tiled = False, imagewidth = Some 100, imagelength = Some 100,
      rowsperstrip = rps, imagedescription = desc, compression = Some 1\<rparr>"

text \<open>A tifflike directory with the given resolution unit and X resolution and no
  other tag.\<close>

definition tifflike_dir_of :: "(gerror + 64 word) \<Rightarrow> (gerror + double) \<Rightarrow> string \<Rightarrow> tifflike_dir" where
  "tifflike_dir_of resunit xres maker =
     \<lparr>tl_tiled = True,
      tl_uint = (\<lambda>tag. if tag = TIFFTAG_RESOLUTIONUNIT then resunit else Inl no_such_value),
      tl_float = (\<lambda>tag. if tag = TIFFTAG_XRESOLUTION then xres else Inl no_such_value),
      tl_buffer = (\<lambda>tag. if tag = TIFFTAG_MAKE then Inr maker else Inl no_such_value)\<rparr>"

text \<open>One tiled directory without the subfile-type tag.\<close>

definition untagged_file :: tiff where
  "untagged_file = (tiled_dir None 4000 7, [])"

text \<open>A tiled directory with the subfile-type tag followed by a tiled directory
  without it, and the state after opening such a file with the host above.\<close>

definition skipped_level_file :: tiff where
  "skipped_level_file = (tiled_dir (Some 0) 4000 7, [tiled_dir None 1000 7])"

definition opened_one_level :: "nat list open_state" where
  "opened_one_level =
     \<lparr>level_array = [],
      osr = new_osr\<lparr>levels := Some [example_level 0 4000], level_count := 1,
                    ops_data := Some \<lparr>tc = ''a.tif''\<rparr>, ops := Some Huron_ops\<rparr>,
      quickhash1 = [0],
      live = {Ops_data, Level_array, Tiffcache, Level_struct 0, Grid 0}\<rparr>"

text \<open>A second tiled directory in JPEG 2000 (34712), which the host above cannot
  decode, without and with the subfile-type tag; and the state in which everything
  has been released.\<close>

definition unsupported_untagged_file :: tiff where
  "unsupported_untagged_file = (tiled_dir (Some 0) 4000 7, [tiled_dir None 1000 34712])"

definition unsupported_file :: tiff where
  "unsupported_file = (tiled_dir (Some 0) 4000 7, [tiled_dir (Some 1) 1000 34712])"

definition closed_state :: "nat list open_state" where
  "closed_state = \<lparr>level_array = [], osr = new_osr, quickhash1 = [], live = {}\<rparr>"

text \<open>A tiled level followed by a stripped directory: without the subfile-type and
  rows-per-strip tags; with the subfile-type tag and a description but without
  rows-per-strip.\<close>

definition untagged_strip_file :: tiff where
  "untagged_strip_file = (tiled_dir (Some 0) 4000 7, [strip_dir None None None])"

definition strip_without_rows_file :: tiff where
  "strip_without_rows_file = (tiled_dir (Some 0) 4000 7, [strip_dir (Some 0) None (Some ''label'')])"


text \<open>The name under which a stripped directory with a description is registered,
  written from the words of the specification: the second directory with the default
  subfile type is the thumbnail; otherwise a trimmed description that starts with
  "label" gives the label, otherwise one that starts with "macro" gives the macro
  image; any other directory gives no image.\<close>

definition spec_associated_image_name :: "nat \<Rightarrow> 32 word \<Rightarrow> string \<Rightarrow> string option" where
  "spec_associated_image_name n sft desc =
     (if n = 1 \<and> sft = 0 then Some ''thumbnail''
      else if prefix ''label'' (g_strstrip desc) then Some ''label''
      else if prefix ''macro'' (g_strstrip desc) then Some ''macro''
      else None)"

text \<open>A tile decoder that reads only column 0 and clips only row 0 (clearing the
  last pixel), and a state with an empty cache.\<close>

definition example_tile_host :: tile_host where
  "example_tile_host =
     \<lparr>tiff_read_tile = (\<lambda>tfl t c r. if c = 0 then Inr [1, 2, 3, 4]
                               else Inl (OPENSLIDE_ERROR_FAILED, ''Cannot read tile'')),
      tiff_clip_tile = (\<lambda>tfl td c r. if r = 0 then Inr (td[3 := 0])
                               else Inl (OPENSLIDE_ERROR_FAILED, ''Cannot clip tile''))\<rparr>"

definition empty_tile_state :: tile_state where
  "empty_tile_state = \<lparr>cache = Map.empty, entry_refs = 0, slice_log = [], painted = []\<rparr>"

text \<open>Three tiled levels whose widths are not in order in the file, and the state
  after opening that file with the host above.\<close>

definition three_level_file :: tiff where
  "three_level_file =
     (tiled_dir (Some 0) 1000 7, [tiled_dir (Some 1) 4000 7, tiled_dir (Some 1) 500 7])"

definition opened_three_levels :: "nat list open_state" where
  "opened_three_levels =
     \<lparr>level_array = [],
      osr = new_osr\<lparr>levels := Some [example_level 1 4000, example_level 0 1000,
                                      example_level 2 500],
                    level_count := 3,
                    ops_data := Some \<lparr>tc = ''a.tif''\<rparr>, ops := Some Huron_ops\<rparr>,
      quickhash1 = [2],
      live = {Ops_data, Level_array, Tiffcache, Level_struct 0, Grid 0, Level_struct 1, Grid 1,
              Level_struct 2, Grid 2}\<rparr>"

text \<open>Two tiled levels, 4000 wide in directory 0 and 1000 wide in directory 1; the
  tifflike view gives directory 0 the unit centimetre and directory 1 no unit, both
  with X resolution 500.0. The last definition is the state after opening that file.\<close>

definition two_level_file :: tiff where
  "two_level_file = (tiled_dir (Some 0) 4000 7, [tiled_dir (Some 1) 1000 7])"

definition two_level_tifflike :: tifflike where
  "two_level_tifflike =
     [tifflike_dir_of (Inr RESUNIT_CENTIMETER) (Inr double_500) ''Huron'',
      tifflike_dir_of (Inl no_such_value) (Inr double_500) ''Huron'']"

definition opened_two_levels :: "nat list open_state" where
  "opened_two_levels =
     \<lparr>level_array = [],
      osr = new_osr\<lparr>levels := Some [example_level 0 4000, example_level 1 1000],
                    level_count := 2,
                    ops_data := Some \<lparr>tc = ''a.tif''\<rparr>, ops := Some Huron_ops,
                    properties := [''openslide.mpp-x'' \<mapsto> ''20'']\<rparr>,
      quickhash1 = [1],
      live = {Ops_data, Level_array, Tiffcache, Level_struct 0, Grid 0, Level_struct 1, Grid 1}\<rparr>"

text \<open>The levels that the tiled directories with a readable subfile-type tag give,
  in file order, counting directories from \<open>n\<close>: one level for each such directory
  whose geometry initialises.\<close>

definition level_of :: "'h host \<Rightarrow> nat \<Rightarrow> tiff_dir \<Rightarrow> level list" where
  "level_of h n d =
     (if subfiletype d \<noteq> None \<and> tiled d then
        (case tiff_level_init h d n of
           Inl e \<Rightarrow> []
         | Inr (b, tfl) \<Rightarrow>
             [\<lparr>level_ptr = n, base = b, tiffl = tfl,
               grid = Grid_simple (tiles_across tfl) (tiles_down tfl) (tile_w tfl) (tile_h tfl)\<rparr>])
      else [])"

fun tagged_tiled_levels :: "'h host \<Rightarrow> nat \<Rightarrow> tiff_dir list \<Rightarrow> level list" where
  "tagged_tiled_levels h n [] = []"
| "tagged_tiled_levels h n (d # ds) = level_of h n d @ tagged_tiled_levels h (Suc n) ds"

text \<open>A tiled level 4000 wide followed by a tiled directory 100000 wide that has no
  subfile-type tag; and a tiled level followed by a stripped directory described as
  "label" that has no subfile-type tag.\<close>

definition wider_untagged_file :: tiff where
  "wider_untagged_file = (tiled_dir (Some 0) 4000 7, [tiled_dir None 100000 7])"

definition untagged_label_file :: tiff where
  "untagged_label_file = (tiled_dir (Some 0) 4000 7, [strip_dir None (Some 1) (Some ''label'')])"

section \<open>Properties\<close>

subsection \<open>Detection\<close>

text \<open>
  C4. Every file that \<open>huron_detect\<close> accepts is a TIFF whose directory 0 is tiled,
  and every such file is accepted whatever its maker and model tags (or any other
  buffer tag) hold: the result does not depend on them, so the maker and model checks
  take no part in detection.
\<close>

theorem huron_detect_tiled_only:
  "(huron_detect filename tlike = Inr () \<longleftrightarrow>
      (\<exists>t. tlike = Some t \<and> tifflike_is_tiled t 0)) \<and>
   (tifflike_is_tiled t 0 \<longrightarrow>
      huron_detect filename (Some (t[0 := (t ! 0)\<lparr>tl_buffer := b\<rparr>])) = Inr ())"
  by (auto simp: huron_detect_def tifflike_is_tiled_def split: option.splits)

theorem huron_detect_tiled_only_witness:
  "tifflike_is_tiled [tifflike_dir_of (Inl no_such_value) (Inl no_such_value) ''Huron''] 0 \<and>
   huron_detect ''a.tif''
     (Some ([tifflike_dir_of (Inl no_such_value) (Inl no_such_value) ''Huron'']
              [0 := ([tifflike_dir_of (Inl no_such_value) (Inl no_such_value) ''Huron''] ! 0)
                      \<lparr>tl_buffer := (\<lambda>_. Inr ''Aperio'')\<rparr>])) = Inr ()"
proof -
  have tiled: "tifflike_is_tiled [tifflike_dir_of (Inl no_such_value) (Inl no_such_value) ''Huron''] 0"
    by (simp add: tifflike_is_tiled_def tifflike_dir_of_def)
  from huron_detect_tiled_only
         [of "''a.tif''" None "[tifflike_dir_of (Inl no_such_value) (Inl no_such_value) ''Huron'']"
             "\<lambda>_. Inr ''Aperio''"] tiled
  show ?thesis by simp
qed

subsection \<open>The directory loop: what it leaves unchanged, and its resources\<close>

lemma level_resources_append:
  "level_resources (xs @ ys) = level_resources xs \<union> level_resources ys"
  by (auto simp: level_resources_def)

lemma huron_directory_frame:
  assumes "huron_directory h fn n d s = Proceed s' \<or> huron_directory h fn n d s = Goto_FAIL e s'"
  shows "quickhash1 s' = quickhash1 s \<and> properties (osr s') = properties (osr s) \<and>
         levels (osr s') = levels (osr s) \<and> ops_data (osr s') = ops_data (osr s)"
  using assms
  by (auto simp: huron_directory_def add_image_def Let_def
           split: option.splits sum.splits if_splits prod.splits)

lemma huron_directory_effect:
  assumes "huron_directory h fn n d s = Proceed s' \<or> huron_directory h fn n d s = Goto_FAIL e s'"
  shows "(level_array s' = level_array s \<and> live s' \<subseteq> live s) \<or>
         (\<exists>l. level_array s' = level_array s @ [l] \<and> level_ptr l = n \<and>
              live s' = live s \<union> {Level_struct n, Grid n})"
  using assms
  by (auto simp: huron_directory_def add_image_def Let_def
           split: option.splits sum.splits if_splits prod.splits)

lemma huron_directory_accounted:
  assumes "huron_directory h fn n d s = Proceed s' \<or> huron_directory h fn n d s = Goto_FAIL e s'"
    and "accounted s"
  shows "accounted s'"
proof -
  from huron_directory_effect [OF assms(1)]
  show ?thesis
  proof
    assume "level_array s' = level_array s \<and> live s' \<subseteq> live s"
    with assms(2) show ?thesis unfolding accounted_def by auto
  next
    assume "\<exists>l. level_array s' = level_array s @ [l] \<and> level_ptr l = n \<and>
              live s' = live s \<union> {Level_struct n, Grid n}"
    then obtain l where l: "level_array s' = level_array s @ [l]" "level_ptr l = n"
      "live s' = live s \<union> {Level_struct n, Grid n}" by blast
    have "level_resources (level_array s') =
            level_resources (level_array s) \<union> {Level_struct n, Grid n}"
      using l by (simp add: level_resources_append) (simp add: level_resources_def)
    with assms(2) l(3) show ?thesis unfolding accounted_def by auto
  qed
qed

lemma scan_frame:
  "scan_directories h fn n d rest s = Proceed s' \<or>
   scan_directories h fn n d rest s = Goto_FAIL e s' \<Longrightarrow>
     quickhash1 s' = quickhash1 s \<and> properties (osr s') = properties (osr s) \<and>
     levels (osr s') = levels (osr s) \<and> ops_data (osr s') = ops_data (osr s)"
proof (induction rest arbitrary: n d s)
  case Nil
  then show ?case using huron_directory_frame [of h fn n d s s' e] by simp
next
  case (Cons d' rest)
  show ?case
  proof (cases "huron_directory h fn n d s")
    case (Proceed s1)
    with Cons.prems have "scan_directories h fn (Suc n) d' rest s1 = Proceed s' \<or>
        scan_directories h fn (Suc n) d' rest s1 = Goto_FAIL e s'" by simp
    from Cons.IH [OF this] huron_directory_frame [of h fn n d s s1] Proceed
    show ?thesis by simp
  next
    case (Goto_FAIL e1 s1)
    with Cons.prems have "e1 = e" "s1 = s'" by simp_all
    with Goto_FAIL huron_directory_frame [of h fn n d s s' e] show ?thesis by simp
  qed
qed

lemma scan_accounted:
  "scan_directories h fn n d rest s = Proceed s' \<or>
   scan_directories h fn n d rest s = Goto_FAIL e s' \<Longrightarrow>
     accounted s \<Longrightarrow> accounted s'"
proof (induction rest arbitrary: n d s)
  case Nil
  then show ?case using huron_directory_accounted [of h fn n d s s' e] by simp
next
  case (Cons d' rest)
  show ?case
  proof (cases "huron_directory h fn n d s")
    case (Proceed s1)
    with Cons.prems have *: "scan_directories h fn (Suc n) d' rest s1 = Proceed s' \<or>
        scan_directories h fn (Suc n) d' rest s1 = Goto_FAIL e s'" by simp
    have "accounted s1"
      using huron_directory_accounted [of h fn n d s s1] Proceed Cons.prems(2) by simp
    from Cons.IH [OF * this] show ?thesis .
  next
    case (Goto_FAIL e1 s1)
    with Cons.prems have "e1 = e" "s1 = s'" by simp_all
    with Goto_FAIL huron_directory_accounted [of h fn n d s s' e] Cons.prems(2)
    show ?thesis by simp
  qed
qed

text \<open>A directory on which the loop body always jumps to \<^verbatim>\<open>FAIL\<close> makes the loop
  end there, at that directory or at an earlier one.\<close>

lemma scan_fails:
  assumes "x \<in> set (d # rest)"
    and "\<And>n s. \<exists>e s'. huron_directory h fn n x s = Goto_FAIL e s'"
  shows "\<exists>e s'. scan_directories h fn n d rest s = Goto_FAIL e s'"
  using assms(1)
proof (induction rest arbitrary: n d s)
  case Nil
  then show ?case using assms(2) by simp
next
  case (Cons d' rest)
  show ?case
  proof (cases "huron_directory h fn n d s")
    case (Proceed s1)
    have "x = d \<or> x \<in> set (d' # rest)" using Cons.prems by auto
    then show ?thesis
    proof
      assume "x = d" with assms(2) [of n s] Proceed show ?thesis by auto
    next
      assume "x \<in> set (d' # rest)"
      from Cons.IH [OF this, of "Suc n" s1] Proceed show ?thesis by simp
    qed
  next
    case (Goto_FAIL e1 s1)
    then show ?thesis by simp
  qed
qed

lemma foldl_release:
  "foldl (\<lambda>X l. X - {Grid (level_ptr l)} - {Level_struct (level_ptr l)}) A ls
     = A - level_resources ls"
  by (induction ls arbitrary: A) (auto simp: level_resources_def)

lemma huron_FAIL_releases:
  "accounted s \<Longrightarrow>
     \<exists>s'. huron_FAIL e s = Returns_false e s' \<and> live s' = {} \<and> level_array s' = []"
  by (auto simp: huron_FAIL_def foldl_release accounted_def)

lemma loop_entry_accounted: "accounted (loop_entry o_s qh)"
  by (simp add: accounted_def loop_entry_def)

text \<open>\<open>huron_open\<close> after a successful \<^verbatim>\<open>_openslide_tiffcache_get\<close>, in terms of the
  loop's entry state.\<close>

lemma huron_open_scan:
  "tiffcache_get h fn = Inr (d, rest) \<Longrightarrow>
   huron_open h o_s fn tlike qh =
     (case scan_directories h fn 0 d rest (loop_entry o_s qh) of
        Goto_FAIL e s \<Rightarrow> huron_FAIL e s
      | Proceed s \<Rightarrow>
          if length (level_array s) = 0 then Out_of_bounds_read
          else
            (case init_properties_and_hash h tlike (quickhash1 s)
                    (dir (tiffl (ptr_array_sort h width_compare (level_array s)
                                   ! (length (level_array s) - 1))))
                    0 (properties (osr s)) of
               Inl e \<Rightarrow>
                 huron_FAIL e (s\<lparr>level_array := ptr_array_sort h width_compare (level_array s)\<rparr>)
             | Inr (props, qh') \<Rightarrow>
                 if ops_data (osr s) = None \<and> levels (osr s) = None
                 then
                   Returns_true
                     (s\<lparr>level_array := [],
                        quickhash1 := qh',
                        osr := huron_set_props h
                          ((osr s)\<lparr>properties := props,
                                   levels := Some (ptr_array_sort h width_compare (level_array s)),
                                   level_count := int (length (level_array s)),
                                   ops_data := Some \<lparr>tc = fn\<rparr>,
                                   ops := Some Huron_ops\<rparr>) tlike 0,
                        live := insert Ops_data (live s - {Tiff_handle})\<rparr>)
                 else Assertion_abort))"
  by (simp add: huron_open_def loop_entry_def Let_def insert_commute split: control.splits)

subsection \<open>An open that finds no level\<close>

text \<open>When the loop ends with an empty array, line 366 reads outside it: no branch
  of \<open>huron_open\<close> returns an error for that case.\<close>

lemma huron_open_empty_array:
  "tiffcache_get h fn = Inr (d, rest) \<Longrightarrow>
   scan_directories h fn 0 d rest (loop_entry o_s qh) = Proceed s \<Longrightarrow>
   level_array s = [] \<Longrightarrow>
   huron_open h o_s fn tlike qh = Out_of_bounds_read"
  by (simp add: huron_open_scan)

text \<open>
  C1. The claim asks that an open whose traversal accumulates no level returns an
  error. The code has no such check. The file below has one tiled directory without
  the subfile-type tag: \<open>huron_detect\<close> accepts it, the loop skips its only directory
  at line 282, and \<open>huron_open\<close> then reads \<^verbatim>\<open>pdata[len - 1]\<close> of the empty array
  instead of returning false.
\<close>

theorem huron_open_no_levels_reads_out_of_bounds:
  "huron_detect ''a.tif''
     (Some [tifflike_dir_of (Inl no_such_value) (Inl no_such_value) ''Huron'']) = Inr () \<and>
   huron_open (example_host untagged_file) new_osr ''a.tif''
     [tifflike_dir_of (Inl no_such_value) (Inl no_such_value) ''Huron''] []
   = Out_of_bounds_read"
  by (simp add: huron_open_def example_host_def untagged_file_def tiled_dir_def
                huron_directory_def huron_detect_def tifflike_is_tiled_def tifflike_dir_of_def)

subsection \<open>Evaluating the concrete inputs\<close>

lemmas open_eval =
  huron_open_def huron_FAIL_def huron_directory_def add_image_def required_tag_error_def
  huron_set_props_def huron_set_resolution_prop_def
  tifflike_get_uint_def tifflike_get_float_def no_such_value_def Let_def
  example_host_def tiled_dir_def strip_dir_def new_osr_def geometry_of_def example_level_def
  insertion_sort_def width_compare_def example_divide_def

lemma example_open_one_level:
  "huron_open (example_host (tiled_dir (Some 0) 4000 7, [tiled_dir None w c])) new_osr ''a.tif'' [] []
     = Returns_true opened_one_level"
  by (auto simp: open_eval opened_one_level_def)

subsection \<open>Tiled directories\<close>

text \<open>
  C2, as stated, fails: the subfile-type tag is looked at before the tiled flag (lines
  280--283), and a tiled directory without that tag is skipped. Opening a file whose
  second directory is tiled, JPEG-compressed and has no subfile-type tag succeeds with
  the first directory as the only level.
\<close>

theorem tiled_directory_without_subfiletype_skipped:
  "tiled (tiled_dir None 1000 7) \<and>
   compression (tiled_dir None 1000 7) = Some 7 \<and>
   codec_configured (example_host skipped_level_file) 7 \<and>
   huron_open (example_host skipped_level_file) new_osr ''a.tif'' [] []
     = Returns_true opened_one_level"
  by (simp add: example_open_one_level skipped_level_file_def) (simp add: tiled_dir_def example_host_def)

text \<open>
  C2, amended. A directory whose subfile-type tag cannot be read is skipped, tiled or
  not. A tiled directory whose subfile-type tag can be read is a pyramid level whatever
  that tag's value and whatever its other tags hold, provided its compression tag is
  readable, the codec is configured and the level geometry initialises: the level is
  appended to the array.
\<close>

theorem tiled_directory_classification:
  "(subfiletype d = None \<longrightarrow> huron_directory h fn n d s = Proceed s) \<and>
   (subfiletype d = Some sft \<and> tiled d \<and> compression d = Some c \<and> codec_configured h c \<and>
    tiff_level_init h d n = Inr (b, tfl) \<longrightarrow>
      huron_directory h fn n d s =
        Proceed (s\<lparr>level_array := level_array s @
                     [\<lparr>level_ptr = n, base = b, tiffl = tfl,
                       grid = Grid_simple (tiles_across tfl) (tiles_down tfl)
                                (tile_w tfl) (tile_h tfl)\<rparr>],
                   live := live s \<union> {Level_struct n, Grid n}\<rparr>))"
  by (simp add: huron_directory_def)

theorem tiled_directory_classification_witness:
  "subfiletype (tiled_dir None 1000 7) = None \<and>
   huron_directory (example_host untagged_file) ''a.tif'' 1 (tiled_dir None 1000 7)
      (loop_entry new_osr []) = Proceed (loop_entry new_osr []) \<and>
   subfiletype (tiled_dir (Some 9) 4000 7) = Some 9 \<and> tiled (tiled_dir (Some 9) 4000 7) \<and>
   compression (tiled_dir (Some 9) 4000 7) = Some 7 \<and>
   codec_configured (example_host untagged_file) 7 \<and>
   huron_directory (example_host untagged_file) ''a.tif'' 0 (tiled_dir (Some 9) 4000 7)
      (loop_entry new_osr []) =
     Proceed ((loop_entry new_osr [])\<lparr>level_array := [example_level 0 4000],
                live := {Tiff_handle, Level_array, Tiffcache, Level_struct 0, Grid 0}\<rparr>)"
proof -
  have a: "subfiletype (tiled_dir None 1000 7) = None" by (simp add: tiled_dir_def)
  have b: "subfiletype (tiled_dir (Some 9) 4000 7) = Some 9 \<and> tiled (tiled_dir (Some 9) 4000 7) \<and>
     compression (tiled_dir (Some 9) 4000 7) = Some 7 \<and>
     codec_configured (example_host untagged_file) 7 \<and>
     tiff_level_init (example_host untagged_file) (tiled_dir (Some 9) 4000 7) 0
       = Inr (base (example_level 0 4000), tiffl (example_level 0 4000))"
    by (simp add: tiled_dir_def example_host_def geometry_of_def)
  have c: "\<lparr>level_ptr = 0, base = base (example_level 0 4000), tiffl = tiffl (example_level 0 4000),
             grid = Grid_simple (tiles_across (tiffl (example_level 0 4000)))
                      (tiles_down (tiffl (example_level 0 4000)))
                      (tile_w (tiffl (example_level 0 4000))) (tile_h (tiffl (example_level 0 4000)))\<rparr>
           = example_level 0 4000"
    by (simp add: example_level_def)
  have d: "live (loop_entry new_osr ([]::nat list)) \<union> {Level_struct 0, Grid 0}
           = {Tiff_handle, Level_array, Tiffcache, Level_struct 0, Grid 0}"
    by (auto simp: loop_entry_def)
  have e: "level_array (loop_entry new_osr ([]::nat list)) = []" by (simp add: loop_entry_def)
  from tiled_directory_classification
         [of "tiled_dir None 1000 7" "example_host untagged_file" "''a.tif''" 1
             "loop_entry new_osr []"] a
  have 1: "huron_directory (example_host untagged_file) ''a.tif'' 1 (tiled_dir None 1000 7)
      (loop_entry new_osr []) = Proceed (loop_entry new_osr [])" by simp
  from tiled_directory_classification
         [of "tiled_dir (Some 9) 4000 7" "example_host untagged_file" "''a.tif''" 0
             "loop_entry new_osr []" 9 7 "base (example_level 0 4000)" "tiffl (example_level 0 4000)"] b
  have 2: "huron_directory (example_host untagged_file) ''a.tif'' 0 (tiled_dir (Some 9) 4000 7)
      (loop_entry new_osr []) =
     Proceed ((loop_entry new_osr [])\<lparr>level_array := [example_level 0 4000],
                live := {Tiff_handle, Level_array, Tiffcache, Level_struct 0, Grid 0}\<rparr>)"
    by (simp only: c d e append_Nil) 
  from a b 1 2 show ?thesis by simp
qed

subsection \<open>Hard failures\<close>

text \<open>If the loop body jumps to \<^verbatim>\<open>FAIL\<close> on some directory of the file whatever the
  state, the open returns false, and nothing that it allocated or checked out is left.\<close>

lemma huron_open_fails_at:
  assumes "tiffcache_get h fn = Inr (d, rest)"
    and "x \<in> set (d # rest)"
    and "\<And>n s. \<exists>e s'. huron_directory h fn n x s = Goto_FAIL e s'"
  shows "\<exists>e s'. huron_open h o_s fn tlike qh = Returns_false e s' \<and> live s' = {} \<and>
           level_array s' = []"
proof -
  from scan_fails [OF assms(2,3)]
  obtain e s1 where scan: "scan_directories h fn 0 d rest (loop_entry o_s qh) = Goto_FAIL e s1"
    by blast
  have "accounted s1"
    by (rule scan_accounted [OF disjI2 [OF scan] loop_entry_accounted])
  from huron_FAIL_releases [OF this, of e]
  show ?thesis using scan assms(1) by (auto simp: huron_open_scan)
qed

text \<open>
  C7, as stated, fails for a tiled directory without the subfile-type tag: it is
  skipped at line 282 before its compression is looked at. The second directory of the
  file below is tiled and uses a codec the host cannot decode; the open succeeds.
\<close>

theorem unsupported_compression_without_subfiletype_skipped:
  "tiled (tiled_dir None 1000 34712) \<and>
   compression (tiled_dir None 1000 34712) = Some 34712 \<and>
   \<not> codec_configured (example_host unsupported_untagged_file) 34712 \<and>
   huron_open (example_host unsupported_untagged_file) new_osr ''a.tif'' [] []
     = Returns_true opened_one_level"
  by (simp add: example_open_one_level unsupported_untagged_file_def)
     (simp add: tiled_dir_def example_host_def)

text \<open>
  C7, amended. If a tiled directory whose subfile-type tag is readable has no readable
  compression tag, or a compression scheme the host cannot decode, then the loop body
  jumps to \<^verbatim>\<open>FAIL\<close> on it with the corresponding error (it is not skipped), and the
  open returns false with every level built so far, every grid, the array, the TIFF
  handle and the tiffcache released.
\<close>

theorem unreadable_compression_fails_open:
  assumes "tiffcache_get h fn = Inr (d, rest)"
    and "x \<in> set (d # rest)"
    and "tiled x"
    and "subfiletype x \<noteq> None"
    and "compression x = None \<or> (\<exists>c. compression x = Some c \<and> \<not> codec_configured h c)"
  shows "(\<forall>n s. huron_directory h fn n x s =
            Goto_FAIL (OPENSLIDE_ERROR_FAILED,
                       case compression x of
                         None \<Rightarrow> ''Can't read compression scheme''
                       | Some c \<Rightarrow> ''Unsupported TIFF compression: '' @ decimal (unat c)) s) \<and>
         (\<exists>e s'. huron_open h o_s fn tlike qh = Returns_false e s' \<and> live s' = {} \<and>
                  level_array s' = [])"
proof -
  have step: "huron_directory h fn n x s =
            Goto_FAIL (OPENSLIDE_ERROR_FAILED,
                       case compression x of
                         None \<Rightarrow> ''Can't read compression scheme''
                       | Some c \<Rightarrow> ''Unsupported TIFF compression: '' @ decimal (unat c)) s"
    for n and s :: "'a open_state"
    using assms(3,4,5) by (auto simp: huron_directory_def)
  then have "\<And>n (s :: 'a open_state). \<exists>e s'. huron_directory h fn n x s = Goto_FAIL e s'"
    by blast
  from huron_open_fails_at [OF assms(1,2) this] step show ?thesis by blast
qed

theorem unreadable_compression_fails_open_witness:
  "tiffcache_get (example_host unsupported_file) ''a.tif''
     = Inr (tiled_dir (Some 0) 4000 7, [tiled_dir (Some 1) 1000 34712]) \<and>
   tiled_dir (Some 1) 1000 34712 \<in> set (tiled_dir (Some 0) 4000 7 # [tiled_dir (Some 1) 1000 34712]) \<and>
   tiled (tiled_dir (Some 1) 1000 34712) \<and>
   subfiletype (tiled_dir (Some 1) 1000 34712) \<noteq> None \<and>
   compression (tiled_dir (Some 1) 1000 34712) = Some 34712 \<and>
   \<not> codec_configured (example_host unsupported_file) 34712 \<and>
   huron_open (example_host unsupported_file) new_osr ''a.tif'' [] []
     = Returns_false (OPENSLIDE_ERROR_FAILED, ''Unsupported TIFF compression: 34712'') closed_state"
proof -
  have 1: "tiffcache_get (example_host unsupported_file) ''a.tif''
     = Inr (tiled_dir (Some 0) 4000 7, [tiled_dir (Some 1) 1000 34712])"
    by (simp add: example_host_def unsupported_file_def)
  have 2: "tiled_dir (Some 1) 1000 34712 \<in> set (tiled_dir (Some 0) 4000 7 # [tiled_dir (Some 1) 1000 34712])"
    by simp
  have 3: "tiled (tiled_dir (Some 1) 1000 34712)" by (simp add: tiled_dir_def)
  have 4: "subfiletype (tiled_dir (Some 1) 1000 34712) \<noteq> None" by (simp add: tiled_dir_def)
  have 5: "compression (tiled_dir (Some 1) 1000 34712) = Some 34712" by (simp add: tiled_dir_def)
  have 6: "\<not> codec_configured (example_host unsupported_file) 34712" by (simp add: example_host_def)
  from 5 6 have 7: "compression (tiled_dir (Some 1) 1000 34712) = None \<or>
     (\<exists>c. compression (tiled_dir (Some 1) 1000 34712) = Some c \<and>
          \<not> codec_configured (example_host unsupported_file) c)" by simp
  from unreadable_compression_fails_open [OF 1 2 3 4 7, of new_osr "[]" "[]"]
  obtain e s' where r: "huron_open (example_host unsupported_file) new_osr ''a.tif'' [] []
      = Returns_false e s'" "live s' = {}" "level_array s' = []" by blast
  have "huron_open (example_host unsupported_file) new_osr ''a.tif'' [] []
     = Returns_false (OPENSLIDE_ERROR_FAILED, ''Unsupported TIFF compression: 34712'') closed_state"
    by (auto simp: open_eval unsupported_file_def closed_state_def)
  with 1 2 3 4 5 6 r show ?thesis by simp
qed

subsection \<open>Stripped directories\<close>

lemma example_open_untagged_strip:
  "huron_open (example_host (tiled_dir (Some 0) 4000 7, [strip_dir None rps desc])) new_osr ''a.tif'' [] []
     = Returns_true opened_one_level"
  by (auto simp: open_eval opened_one_level_def)

lemma example_open_strip_without_rows:
  "huron_open (example_host (tiled_dir (Some 0) 4000 7, [strip_dir (Some sft) None desc])) new_osr ''a.tif'' [] []
     = Returns_false (OPENSLIDE_ERROR_FAILED, ''Cannot get required TIFF tag: 278'') closed_state"
  by (auto simp: open_eval closed_state_def TIFFTAG_ROWSPERSTRIP_def)

text \<open>
  C10, as stated, fails for a stripped directory without the subfile-type tag: it is
  skipped at line 282 before the three tags are asked for. The second directory of the
  file below is not tiled and has no rows-per-strip tag; the open succeeds.
\<close>

theorem strip_without_subfiletype_skipped:
  "\<not> tiled (strip_dir None None None) \<and>
   rowsperstrip (strip_dir None None None) = None \<and>
   huron_open (example_host untagged_strip_file) new_osr ''a.tif'' [] []
     = Returns_true opened_one_level"
  by (simp add: example_open_untagged_strip untagged_strip_file_def) (simp add: strip_dir_def)

text \<open>
  C10, amended. If a directory that is not tiled and whose subfile-type tag is readable
  lacks the image-width, image-length or rows-per-strip tag, the loop body jumps to
  \<^verbatim>\<open>FAIL\<close> on it with the error naming the first missing tag (it is not skipped), and
  the open returns false, with everything it held released.
\<close>

theorem missing_dimension_tag_fails_open:
  assumes "tiffcache_get h fn = Inr (d, rest)"
    and "x \<in> set (d # rest)"
    and "\<not> tiled x"
    and "subfiletype x \<noteq> None"
    and "imagewidth x = None \<or> imagelength x = None \<or> rowsperstrip x = None"
  shows "(\<forall>n s. huron_directory h fn n x s =
            Goto_FAIL (required_tag_error
                         (if imagewidth x = None then TIFFTAG_IMAGEWIDTH
                          else if imagelength x = None then TIFFTAG_IMAGELENGTH
                          else TIFFTAG_ROWSPERSTRIP)) s) \<and>
         (\<exists>e s'. huron_open h o_s fn tlike qh = Returns_false e s' \<and> live s' = {} \<and>
                  level_array s' = [])"
proof -
  have step: "huron_directory h fn n x s =
            Goto_FAIL (required_tag_error
                         (if imagewidth x = None then TIFFTAG_IMAGEWIDTH
                          else if imagelength x = None then TIFFTAG_IMAGELENGTH
                          else TIFFTAG_ROWSPERSTRIP)) s"
    for n and s :: "'a open_state"
    using assms(3,4,5) by (auto simp: huron_directory_def)
  then have "\<And>n (s :: 'a open_state). \<exists>e s'. huron_directory h fn n x s = Goto_FAIL e s'"
    by blast
  from huron_open_fails_at [OF assms(1,2) this] step show ?thesis by blast
qed

theorem missing_dimension_tag_fails_open_witness:
  "tiffcache_get (example_host strip_without_rows_file) ''a.tif''
     = Inr (tiled_dir (Some 0) 4000 7, [strip_dir (Some 0) None (Some ''label'')]) \<and>
   \<not> tiled (strip_dir (Some 0) None (Some ''label'')) \<and>
   subfiletype (strip_dir (Some 0) None (Some ''label'')) \<noteq> None \<and>
   rowsperstrip (strip_dir (Some 0) None (Some ''label'')) = None \<and>
   huron_open (example_host strip_without_rows_file) new_osr ''a.tif'' [] []
     = Returns_false (OPENSLIDE_ERROR_FAILED, ''Cannot get required TIFF tag: 278'') closed_state"
proof -
  have 1: "tiffcache_get (example_host strip_without_rows_file) ''a.tif''
     = Inr (tiled_dir (Some 0) 4000 7, [strip_dir (Some 0) None (Some ''label'')])"
    by (simp add: example_host_def strip_without_rows_file_def)
  have 2: "strip_dir (Some 0) None (Some ''label'')
             \<in> set (tiled_dir (Some 0) 4000 7 # [strip_dir (Some 0) None (Some ''label'')])"
    by simp
  have 3: "\<not> tiled (strip_dir (Some 0) None (Some ''label''))" by (simp add: strip_dir_def)
  have 4: "subfiletype (strip_dir (Some 0) None (Some ''label'')) \<noteq> None"
    by (simp add: strip_dir_def)
  have 5: "rowsperstrip (strip_dir (Some 0) None (Some ''label'')) = None"
    by (simp add: strip_dir_def)
  then have 6: "imagewidth (strip_dir (Some 0) None (Some ''label'')) = None \<or>
     imagelength (strip_dir (Some 0) None (Some ''label'')) = None \<or>
     rowsperstrip (strip_dir (Some 0) None (Some ''label'')) = None" by simp
  from missing_dimension_tag_fails_open [OF 1 2 3 4 6, of new_osr "[]" "[]"]
  obtain e s' where "huron_open (example_host strip_without_rows_file) new_osr ''a.tif'' [] []
      = Returns_false e s'" by blast
  have "huron_open (example_host strip_without_rows_file) new_osr ''a.tif'' [] []
     = Returns_false (OPENSLIDE_ERROR_FAILED, ''Cannot get required TIFF tag: 278'') closed_state"
    by (simp add: example_open_strip_without_rows strip_without_rows_file_def)
  with 1 3 4 5 show ?thesis by simp
qed

lemma uint_neq_1: "(uint (ir::32 word) \<noteq> 1) = (ir \<noteq> 1)"
  using word_uint_eq_iff [of ir 1] by simp

lemma uint_le_0: "(uint (iw::32 word) \<le> 0) = (iw = 0)"
  using word_uint_eq_iff [of iw 0] uint_ge_0 [of iw] by (simp only: uint_0_eq) linarith

lemma strip_directory_unfold:
  assumes "\<not> tiled d"
    and "subfiletype d = Some sft"
    and "imagewidth d = Some iw"
    and "imagelength d = Some ih"
    and "rowsperstrip d = Some ir"
  shows "huron_directory h fn n d s =
           (if ir \<noteq> 1 \<or> iw = 0 \<or> ih = 0 then Proceed s
            else case imagedescription d of
                   None \<Rightarrow> Proceed s
                 | Some desc \<Rightarrow>
                        if n = 1 \<and> sft = 0 then add_image h ''thumbnail'' fn n s
                        else if prefix LABEL_DESCRIPTION (g_strstrip desc)
                          then add_image h ''label'' fn n s
                        else if prefix MACRO_DESCRIPTION (g_strstrip desc)
                          then add_image h ''macro'' fn n s
                        else Proceed s)"
  unfolding huron_directory_def Let_def
  by (simp only: assms option.case if_True not_False_eq_True uint_neq_1 uint_le_0)

lemma strip_dir_tags:
  "\<not> tiled (strip_dir sft rps desc)" "subfiletype (strip_dir sft rps desc) = sft"
  "imagewidth (strip_dir sft rps desc) = Some 100" "imagelength (strip_dir sft rps desc) = Some 100"
  "rowsperstrip (strip_dir sft rps desc) = rps" "imagedescription (strip_dir sft rps desc) = desc"
  by (simp_all add: strip_dir_def)

text \<open>
  C9, as stated, fails for a stripped directory without the subfile-type tag: it is
  skipped at line 282 before lines 296--319 are reached. The second directory of the
  file below is not tiled, has one row per strip and the description "label", and no
  subfile-type tag; the open succeeds and registers no associated image, neither
  "label" nor "thumbnail".
\<close>

theorem label_directory_without_subfiletype_skipped:
  "\<not> tiled (strip_dir None (Some 1) (Some ''label'')) \<and>
   imagewidth (strip_dir None (Some 1) (Some ''label'')) = Some 100 \<and>
   imagelength (strip_dir None (Some 1) (Some ''label'')) = Some 100 \<and>
   rowsperstrip (strip_dir None (Some 1) (Some ''label'')) = Some 1 \<and>
   imagedescription (strip_dir None (Some 1) (Some ''label'')) = Some ''label'' \<and>
   prefix ''label'' (g_strstrip ''label'') \<and>
   huron_open (example_host untagged_label_file) new_osr ''a.tif'' [] []
     = Returns_true opened_one_level \<and>
   associated_images (osr opened_one_level) = Map.empty"
proof -
  have "g_strstrip ''label'' = ''label''"
    by (simp add: g_strstrip_def g_strchug_def g_strchomp_def g_ascii_isspace_def)
  then show ?thesis
    by (simp add: example_open_untagged_strip untagged_label_file_def strip_dir_tags)
       (simp add: opened_one_level_def new_osr_def)
qed

text \<open>
  C9, amended. For a directory that is not tiled, whose subfile-type tag is readable
  and that has passed the dimension rule (image-width, image-length and rows-per-strip
  readable; it is skipped if rows-per-strip is not 1 or the width or height is 0): if
  it has no description tag it is skipped, with no associated image and no error;
  otherwise it is registered under the name the specification's precedence gives
  (thumbnail for directory 1 with subfile type 0, else label, else macro, by the
  trimmed description's prefix) or skipped when there is none. A registration that
  the host refuses fails the open.
\<close>

theorem associated_image_classification:
  assumes "\<not> tiled d"
    and "subfiletype d = Some sft"
    and "imagewidth d = Some iw"
    and "imagelength d = Some ih"
    and "rowsperstrip d = Some ir"
  shows "huron_directory h fn n d s =
           (if ir \<noteq> 1 \<or> iw = 0 \<or> ih = 0 then Proceed s
            else case imagedescription d of
                   None \<Rightarrow> Proceed s
                 | Some desc \<Rightarrow>
                     (case spec_associated_image_name n sft desc of
                        None \<Rightarrow> Proceed s
                      | Some name \<Rightarrow>
                          (case add_associated_image h name fn n of
                             Inl e \<Rightarrow> Goto_FAIL e s
                           | Inr u \<Rightarrow>
                               Proceed (s\<lparr>osr := (osr s)\<lparr>associated_images :=
                                          (associated_images (osr s))(name \<mapsto> n)\<rparr>\<rparr>))))"
proof (cases "imagedescription d")
  case None
  then show ?thesis by (simp add: strip_directory_unfold [OF assms])
next
  case (Some desc)
  have name: "(case spec_associated_image_name n sft desc of
                        None \<Rightarrow> Proceed s
                      | Some name \<Rightarrow> add_image h name fn n s) =
       (if n = 1 \<and> sft = 0 then add_image h ''thumbnail'' fn n s
                        else if prefix LABEL_DESCRIPTION (g_strstrip desc)
                          then add_image h ''label'' fn n s
                        else if prefix MACRO_DESCRIPTION (g_strstrip desc)
                          then add_image h ''macro'' fn n s
                        else Proceed s)"
    unfolding spec_associated_image_name_def LABEL_DESCRIPTION_def MACRO_DESCRIPTION_def
    by auto
  have "huron_directory h fn n d s =
      (if ir \<noteq> 1 \<or> iw = 0 \<or> ih = 0 then Proceed s
       else (case spec_associated_image_name n sft desc of
                        None \<Rightarrow> Proceed s
                      | Some name \<Rightarrow> add_image h name fn n s))"
    by (simp only: strip_directory_unfold [OF assms] Some option.case name)
  then show ?thesis
    by (simp only: Some option.case add_image_def)
qed

theorem associated_image_classification_witness:
  "\<not> tiled (strip_dir (Some 0) (Some 1) (Some ''  label - 1 '')) \<and>
   subfiletype (strip_dir (Some 0) (Some 1) (Some ''  label - 1 '')) = Some 0 \<and>
   imagewidth (strip_dir (Some 0) (Some 1) (Some ''  label - 1 '')) = Some 100 \<and>
   imagelength (strip_dir (Some 0) (Some 1) (Some ''  label - 1 '')) = Some 100 \<and>
   rowsperstrip (strip_dir (Some 0) (Some 1) (Some ''  label - 1 '')) = Some 1 \<and>
   huron_directory (example_host untagged_file) ''a.tif'' 1
       (strip_dir (Some 0) (Some 1) (Some ''  label - 1 '')) (loop_entry new_osr [])
     = Proceed ((loop_entry new_osr [])
                  \<lparr>osr := new_osr\<lparr>associated_images := [''thumbnail'' \<mapsto> 1]\<rparr>\<rparr>) \<and>
   huron_directory (example_host untagged_file) ''a.tif'' 2
       (strip_dir (Some 0) (Some 1) (Some ''  label - 1 '')) (loop_entry new_osr [])
     = Proceed ((loop_entry new_osr [])
                  \<lparr>osr := new_osr\<lparr>associated_images := [''label'' \<mapsto> 2]\<rparr>\<rparr>) \<and>
   huron_directory (example_host untagged_file) ''a.tif'' 1
       (strip_dir (Some 1) (Some 1) (Some ''macro'')) (loop_entry new_osr [])
     = Proceed ((loop_entry new_osr [])
                  \<lparr>osr := new_osr\<lparr>associated_images := [''macro'' \<mapsto> 1]\<rparr>\<rparr>) \<and>
   huron_directory (example_host untagged_file) ''a.tif'' 1
       (strip_dir (Some 0) (Some 1) None) (loop_entry new_osr [])
     = Proceed (loop_entry new_osr [])"
proof -
  have strip: "g_strstrip ''  label - 1 '' = ''label - 1''" "g_strstrip ''macro'' = ''macro''"
    by (simp_all add: g_strstrip_def g_strchug_def g_strchomp_def g_ascii_isspace_def)
  have host: "add_associated_image (example_host untagged_file) name ''a.tif'' n = Inr ()" for name n
    by (simp add: example_host_def)
  have entry: "osr (loop_entry new_osr ([]::nat list)) = new_osr"
              "associated_images new_osr = Map.empty"
    by (simp_all add: loop_entry_def new_osr_def)
  note inst = associated_image_classification
               [of _ _ "100" "100" "1" "example_host untagged_file" "''a.tif''" _ "loop_entry new_osr []",
                OF strip_dir_tags(1) strip_dir_tags(2) strip_dir_tags(3) strip_dir_tags(4)
                   strip_dir_tags(5)]
  have 1: "huron_directory (example_host untagged_file) ''a.tif'' 1
       (strip_dir (Some 0) (Some 1) (Some ''  label - 1 '')) (loop_entry new_osr [])
     = Proceed ((loop_entry new_osr [])
                  \<lparr>osr := new_osr\<lparr>associated_images := [''thumbnail'' \<mapsto> 1]\<rparr>\<rparr>)"
    by (simp add: inst strip_dir_tags spec_associated_image_name_def host entry)
  have 2: "huron_directory (example_host untagged_file) ''a.tif'' 2
       (strip_dir (Some 0) (Some 1) (Some ''  label - 1 '')) (loop_entry new_osr [])
     = Proceed ((loop_entry new_osr [])
                  \<lparr>osr := new_osr\<lparr>associated_images := [''label'' \<mapsto> 2]\<rparr>\<rparr>)"
    by (simp add: inst strip_dir_tags spec_associated_image_name_def host entry strip)
  have 3: "huron_directory (example_host untagged_file) ''a.tif'' 1
       (strip_dir (Some 1) (Some 1) (Some ''macro'')) (loop_entry new_osr [])
     = Proceed ((loop_entry new_osr [])
                  \<lparr>osr := new_osr\<lparr>associated_images := [''macro'' \<mapsto> 1]\<rparr>\<rparr>)"
    by (simp add: inst strip_dir_tags spec_associated_image_name_def host entry strip)
  have 4: "huron_directory (example_host untagged_file) ''a.tif'' 1
       (strip_dir (Some 0) (Some 1) None) (loop_entry new_osr [])
     = Proceed (loop_entry new_osr [])"
    by (simp add: inst strip_dir_tags)
  from 1 2 3 4 show ?thesis by (simp add: strip_dir_tags)
qed

subsection \<open>The tile callback\<close>

text \<open>Without overflow the 64-bit byte count is the product of the tile's sides
  and 4.\<close>

lemma slice_size_exact:
  "unat (tw :: 64 word) * unat (t_h :: 64 word) * 4 < 2 ^ 64 \<Longrightarrow>
     unat (tw * t_h * 4) = unat tw * unat t_h * 4"
proof -
  assume b: "unat tw * unat t_h * 4 < 2 ^ 64"
  have "unat tw * unat t_h \<le> unat tw * unat t_h * 4" by simp
  from this b have b1: "unat tw * unat t_h < 2 ^ 64" by (rule le_less_trans)
  have "unat (tw * t_h) = unat tw * unat t_h"
    using b1 by (simp add: unat_word_ariths)
  moreover have "unat (tw * t_h * 4) = (unat (tw * t_h) * unat (4 :: 64 word)) mod 2 ^ 64"
    by (simp add: unat_word_ariths)
  ultimately show ?thesis using b by simp
qed

text \<open>
  C8. On a cache miss \<open>read_tile\<close> allocates \<^verbatim>\<open>tw * th * 4\<close> bytes (the product of the
  tile's width, height and 4 when that fits 64 bits). If the decode fails, or the
  clip fails, the buffer is freed, the call returns that error, and the cache, the
  painted surfaces and the entry references are as before; only when both succeed is
  the decoded and clipped buffer put in the cache under (level, column, row), with
  that byte count, and painted.
\<close>

theorem read_tile_miss:
  assumes "cache w (level_ptr l, tile_col, tile_row) = None"
  shows
    "(\<forall>e. tiff_read_tile th (tiffl l) tif tile_col tile_row = Inl e \<longrightarrow>
        read_tile th w l tile_col tile_row tif =
          (Inl e, w\<lparr>slice_log := slice_log w @
                        [Slice_alloc (tile_w (tiffl l) * tile_h (tiffl l) * 4),
                         Slice_free (tile_w (tiffl l) * tile_h (tiffl l) * 4)]\<rparr>)) \<and>
     (\<forall>decoded e. tiff_read_tile th (tiffl l) tif tile_col tile_row = Inr decoded \<and>
        tiff_clip_tile th (tiffl l) decoded tile_col tile_row = Inl e \<longrightarrow>
        read_tile th w l tile_col tile_row tif =
          (Inl e, w\<lparr>slice_log := slice_log w @
                        [Slice_alloc (tile_w (tiffl l) * tile_h (tiffl l) * 4),
                         Slice_free (tile_w (tiffl l) * tile_h (tiffl l) * 4)]\<rparr>)) \<and>
     (\<forall>decoded clipped. tiff_read_tile th (tiffl l) tif tile_col tile_row = Inr decoded \<and>
        tiff_clip_tile th (tiffl l) decoded tile_col tile_row = Inr clipped \<longrightarrow>
        read_tile th w l tile_col tile_row tif =
          (Inr (), w\<lparr>cache := (cache w)((level_ptr l, tile_col, tile_row) \<mapsto>
                                  (clipped, tile_w (tiffl l) * tile_h (tiffl l) * 4)),
                      slice_log := slice_log w @
                        [Slice_alloc (tile_w (tiffl l) * tile_h (tiffl l) * 4)],
                      painted := painted w @ [clipped]\<rparr>)) \<and>
     (\<forall>e. fst (read_tile th w l tile_col tile_row tif) = Inl e \<longrightarrow>
        cache (snd (read_tile th w l tile_col tile_row tif)) = cache w) \<and>
     (unat (tile_w (tiffl l)) * unat (tile_h (tiffl l)) * 4 < 2 ^ 64 \<longrightarrow>
        unat (tile_w (tiffl l) * tile_h (tiffl l) * 4)
          = unat (tile_w (tiffl l)) * unat (tile_h (tiffl l)) * 4)"
proof -
  have a: "\<forall>e. tiff_read_tile th (tiffl l) tif tile_col tile_row = Inl e \<longrightarrow>
        read_tile th w l tile_col tile_row tif =
          (Inl e, w\<lparr>slice_log := slice_log w @
                        [Slice_alloc (tile_w (tiffl l) * tile_h (tiffl l) * 4),
                         Slice_free (tile_w (tiffl l) * tile_h (tiffl l) * 4)]\<rparr>)"
    using assms by (simp add: read_tile_def Let_def)
  have b: "\<forall>decoded e. tiff_read_tile th (tiffl l) tif tile_col tile_row = Inr decoded \<and>
        tiff_clip_tile th (tiffl l) decoded tile_col tile_row = Inl e \<longrightarrow>
        read_tile th w l tile_col tile_row tif =
          (Inl e, w\<lparr>slice_log := slice_log w @
                        [Slice_alloc (tile_w (tiffl l) * tile_h (tiffl l) * 4),
                         Slice_free (tile_w (tiffl l) * tile_h (tiffl l) * 4)]\<rparr>)"
    using assms by (simp add: read_tile_def Let_def)
  have c: "\<forall>decoded clipped. tiff_read_tile th (tiffl l) tif tile_col tile_row = Inr decoded \<and>
        tiff_clip_tile th (tiffl l) decoded tile_col tile_row = Inr clipped \<longrightarrow>
        read_tile th w l tile_col tile_row tif =
          (Inr (), w\<lparr>cache := (cache w)((level_ptr l, tile_col, tile_row) \<mapsto>
                                  (clipped, tile_w (tiffl l) * tile_h (tiffl l) * 4)),
                      slice_log := slice_log w @
                        [Slice_alloc (tile_w (tiffl l) * tile_h (tiffl l) * 4)],
                      painted := painted w @ [clipped]\<rparr>)"
    using assms by (simp add: read_tile_def Let_def draw_tile_def)
  have d: "\<forall>e. fst (read_tile th w l tile_col tile_row tif) = Inl e \<longrightarrow>
        cache (snd (read_tile th w l tile_col tile_row tif)) = cache w"
    using assms
    by (auto simp: read_tile_def Let_def draw_tile_def split: sum.splits)
  from a b c d slice_size_exact show ?thesis by blast
qed

theorem read_tile_miss_witness:
  "cache empty_tile_state (level_ptr (example_level 0 4000), 0, 0) = None \<and>
   read_tile example_tile_host empty_tile_state (example_level 0 4000) 5 0 untagged_file
     = (Inl (OPENSLIDE_ERROR_FAILED, ''Cannot read tile''),
        empty_tile_state\<lparr>slice_log := [Slice_alloc 262144, Slice_free 262144]\<rparr>) \<and>
   read_tile example_tile_host empty_tile_state (example_level 0 4000) 0 7 untagged_file
     = (Inl (OPENSLIDE_ERROR_FAILED, ''Cannot clip tile''),
        empty_tile_state\<lparr>slice_log := [Slice_alloc 262144, Slice_free 262144]\<rparr>) \<and>
   read_tile example_tile_host empty_tile_state (example_level 0 4000) 0 0 untagged_file
     = (Inr (), empty_tile_state\<lparr>cache := [(0, 0, 0) \<mapsto> ([1, 2, 3, 0], 262144)],
                  slice_log := [Slice_alloc 262144], painted := [[1, 2, 3, 0]]\<rparr>)"
proof -
  have miss: "cache empty_tile_state (level_ptr (example_level 0 4000), c, r) = None" for c r
    by (simp add: empty_tile_state_def)
  have geo: "tile_w (tiffl (example_level 0 4000)) * tile_h (tiffl (example_level 0 4000)) * 4
             = 262144" "level_ptr (example_level 0 4000) = 0"
    by (simp_all add: example_level_def)
  have st: "slice_log empty_tile_state = []" "cache empty_tile_state = Map.empty"
    "painted empty_tile_state = []"
    by (simp_all add: empty_tile_state_def)
  have 1: "read_tile example_tile_host empty_tile_state (example_level 0 4000) 5 0 untagged_file
     = (Inl (OPENSLIDE_ERROR_FAILED, ''Cannot read tile''),
        empty_tile_state\<lparr>slice_log := [Slice_alloc 262144, Slice_free 262144]\<rparr>)"
    using read_tile_miss [OF miss [of 5 0], of example_tile_host untagged_file]
    by (simp add: geo st example_tile_host_def)
  have 2: "read_tile example_tile_host empty_tile_state (example_level 0 4000) 0 7 untagged_file
     = (Inl (OPENSLIDE_ERROR_FAILED, ''Cannot clip tile''),
        empty_tile_state\<lparr>slice_log := [Slice_alloc 262144, Slice_free 262144]\<rparr>)"
    using read_tile_miss [OF miss [of 0 7], of example_tile_host untagged_file]
    by (simp add: geo st example_tile_host_def)
  have 3: "read_tile example_tile_host empty_tile_state (example_level 0 4000) 0 0 untagged_file
     = (Inr (), empty_tile_state\<lparr>cache := [(0, 0, 0) \<mapsto> ([1, 2, 3, 0], 262144)],
                  slice_log := [Slice_alloc 262144], painted := [[1, 2, 3, 0]]\<rparr>)"
    using read_tile_miss [OF miss [of 0 0], of example_tile_host untagged_file]
    by (simp add: geo st example_tile_host_def)
  from miss [of 0 0] 1 2 3 show ?thesis by simp
qed

subsection \<open>The sorted level list\<close>

text \<open>The comparator puts \<open>a\<close> before or level with \<open>b\<close> exactly when \<open>a\<close> is at
  least as wide.\<close>

lemma width_compare_le_0:
  "(width_compare a b \<le> 0) = (sint (image_w (tiffl b)) \<le> sint (image_w (tiffl a)))"
proof (cases "sint (image_w (tiffl a)) > sint (image_w (tiffl b))")
  case True
  then show ?thesis by (simp add: width_compare_def)
next
  case False
  show ?thesis
  proof (cases "image_w (tiffl a) = image_w (tiffl b)")
    case True
    then show ?thesis by (simp add: width_compare_def)
  next
    case ne: False
    then have "sint (image_w (tiffl a)) \<noteq> sint (image_w (tiffl b))"
      by (auto dest: signed_word_eqI)
    with False ne show ?thesis by (simp add: width_compare_def)
  qed
qed

lemma mset_insert_by: "mset (insert_by cmp x xs) = add_mset x (mset xs)"
  by (induction xs) simp_all

lemma mset_insertion_sort: "mset (insertion_sort cmp xs) = mset xs"
  by (induction xs) (simp_all add: insertion_sort_def mset_insert_by)

lemma set_insert_by: "set (insert_by cmp x xs) = insert x (set xs)"
  by (induction xs) auto

lemma sorted_insert_by:
  "sorted_wrt (\<lambda>a b. width_compare a b \<le> 0) xs \<Longrightarrow>
   sorted_wrt (\<lambda>a b. width_compare a b \<le> 0) (insert_by width_compare x xs)"
proof (induction xs)
  case Nil
  then show ?case by simp
next
  case (Cons y ys)
  show ?case
  proof (cases "width_compare x y \<le> 0")
    case True
    with Cons.prems show ?thesis by (auto simp: width_compare_le_0)
  next
    case False
    with Cons show ?thesis by (auto simp: width_compare_le_0 set_insert_by)
  qed
qed

lemma insertion_sort_sorts: "sorts_by_width insertion_sort"
proof -
  have "sorted_wrt (\<lambda>a b. width_compare a b \<le> 0) (insertion_sort width_compare xs)" for xs
    by (induction xs) (simp_all add: insertion_sort_def sorted_insert_by)
  then show ?thesis by (simp add: sorts_by_width_def mset_insertion_sort)
qed

lemma sorts_by_width_facts:
  assumes "sorts_by_width srt"
  shows "length (srt width_compare xs) = length xs"
    and "set (srt width_compare xs) = set xs"
    and "sorted_wrt (\<lambda>a b. sint (image_w (tiffl b)) \<le> sint (image_w (tiffl a)))
           (srt width_compare xs)"
proof -
  from assms have m: "mset (srt width_compare xs) = mset xs"
    and s: "sorted_wrt (\<lambda>a b. width_compare a b \<le> 0) (srt width_compare xs)"
    by (simp_all add: sorts_by_width_def)
  from m show "length (srt width_compare xs) = length xs" by (rule mset_eq_length)
  from m show "set (srt width_compare xs) = set xs" by (rule mset_eq_setD)
  from s show "sorted_wrt (\<lambda>a b. sint (image_w (tiffl b)) \<le> sint (image_w (tiffl a)))
           (srt width_compare xs)" by (simp add: width_compare_le_0)
qed

lemma sorted_wrt_hd_greatest:
  "sorted_wrt (\<lambda>a b. f b \<le> (f a :: int)) xs \<Longrightarrow> x \<in> set xs \<Longrightarrow> f x \<le> f (hd xs)"
  by (cases xs) auto

lemma sorted_wrt_last_least:
  "sorted_wrt (\<lambda>a b. f b \<le> (f a :: int)) xs \<Longrightarrow> x \<in> set xs \<Longrightarrow> f (last xs) \<le> f x"
  by (induction xs) (auto split: if_splits)

lemma huron_set_props_fields:
  "levels (huron_set_props h o_s tlike d) = levels o_s"
  "level_count (huron_set_props h o_s tlike d) = level_count o_s"
  "associated_images (huron_set_props h o_s tlike d) = associated_images o_s"
  by (simp_all add: huron_set_props_def huron_set_resolution_prop_def Let_def
               split: sum.splits option.splits)

text \<open>What a successful open went through.\<close>

lemma huron_open_Returns_trueD:
  assumes "huron_open h o_s fn tlike qh = Returns_true s'"
  shows "\<exists>d rest s props qh'.
           tiffcache_get h fn = Inr (d, rest) \<and>
           scan_directories h fn 0 d rest (loop_entry o_s qh) = Proceed s \<and>
           level_array s \<noteq> [] \<and>
           init_properties_and_hash h tlike qh
             (dir (tiffl (ptr_array_sort h width_compare (level_array s)
                            ! (length (level_array s) - 1))))
             0 (properties o_s) = Inr (props, qh') \<and>
           quickhash1 s' = qh' \<and>
           osr s' = huron_set_props h
                      ((osr s)\<lparr>properties := props,
                               levels := Some (ptr_array_sort h width_compare (level_array s)),
                               level_count := int (length (level_array s)),
                               ops_data := Some \<lparr>tc = fn\<rparr>,
                               ops := Some Huron_ops\<rparr>) tlike 0"
proof (cases "tiffcache_get h fn")
  case (Inl e)
  with assms show ?thesis by (simp add: huron_open_def huron_FAIL_def)
next
  case (Inr t)
  obtain d rest where t: "t = (d, rest)" by (cases t)
  with Inr have get: "tiffcache_get h fn = Inr (d, rest)" by simp
  note open_eq = huron_open_scan [OF get, of o_s tlike qh]
  show ?thesis
  proof (cases "scan_directories h fn 0 d rest (loop_entry o_s qh)")
    case (Goto_FAIL e s)
    with assms open_eq show ?thesis by (simp add: huron_FAIL_def)
  next
    case (Proceed s)
    from scan_frame [of h fn 0 d rest "loop_entry o_s qh" s] Proceed
    have fr: "quickhash1 s = qh" "properties (osr s) = properties o_s"
      by (simp_all add: loop_entry_def)
    from assms open_eq Proceed have ne: "level_array s \<noteq> []"
      by (auto split: if_splits)
    from assms open_eq Proceed ne fr get show ?thesis
      by (auto simp: huron_FAIL_def split: sum.splits if_splits)
  qed
qed

lemma example_open_three_levels:
  "huron_open (example_host three_level_file) new_osr ''a.tif'' [] []
     = Returns_true opened_three_levels"
  by (auto simp: open_eval opened_three_levels_def three_level_file_def)

lemma example_host_sorts: "sorts_by_width (ptr_array_sort (example_host t))"
  by (simp add: example_host_def insertion_sort_sorts)

lemma huron_directory_levels:
  "huron_directory h fn n d s = Proceed s' \<Longrightarrow>
     level_array s' = level_array s @ level_of h n d"
  by (auto simp: huron_directory_def add_image_def level_of_def Let_def
           split: option.splits sum.splits if_splits prod.splits)

lemma scan_levels:
  "scan_directories h fn n d rest s = Proceed s' \<Longrightarrow>
     level_array s' = level_array s @ tagged_tiled_levels h n (d # rest)"
proof (induction rest arbitrary: n d s)
  case Nil
  then show ?case using huron_directory_levels [of h fn n d s s'] by simp
next
  case (Cons d' rest)
  show ?case
  proof (cases "huron_directory h fn n d s")
    case (Proceed s1)
    with Cons.prems have "scan_directories h fn (Suc n) d' rest s1 = Proceed s'" by simp
    from Cons.IH [OF this] huron_directory_levels [OF Proceed]
    show ?thesis by simp
  next
    case (Goto_FAIL e1 s1)
    with Cons.prems show ?thesis by simp
  qed
qed

lemma huron_directory_level_count:
  "huron_directory h fn n d s = Proceed s' \<Longrightarrow>
     length (level_of h n d) = (if subfiletype d \<noteq> None \<and> tiled d then 1 else 0)"
  by (auto simp: huron_directory_def level_of_def split: option.splits sum.splits if_splits)

lemma scan_level_count:
  "scan_directories h fn n d rest s = Proceed s' \<Longrightarrow>
     length (tagged_tiled_levels h n (d # rest))
       = length (filter (\<lambda>x. subfiletype x \<noteq> None \<and> tiled x) (d # rest))"
proof (induction rest arbitrary: n d s)
  case Nil
  then show ?case using huron_directory_level_count [of h fn n d s s'] by simp
next
  case (Cons d' rest)
  show ?case
  proof (cases "huron_directory h fn n d s")
    case (Proceed s1)
    with Cons.prems have "scan_directories h fn (Suc n) d' rest s1 = Proceed s'" by simp
    from Cons.IH [OF this] huron_directory_level_count [OF Proceed]
    show ?thesis by simp
  next
    case (Goto_FAIL e1 s1)
    with Cons.prems show ?thesis by simp
  qed
qed

text \<open>
  C5, as stated, fails in "the widest level present in the file": a tiled directory
  without the subfile-type tag is skipped at line 282 and never becomes a level,
  however wide it is. The file below holds tiled directories 4000 and 100000 wide;
  the open succeeds with the 4000 wide directory as its only, hence first, level.
\<close>

theorem wider_untagged_directory_is_no_level:
  "tiled (tiled_dir None 100000 7) \<and>
   imagewidth (tiled_dir None 100000 7) = Some 100000 \<and>
   huron_open (example_host wider_untagged_file) new_osr ''a.tif'' [] []
     = Returns_true opened_one_level \<and>
   levels (osr opened_one_level) = Some [example_level 0 4000] \<and>
   sint (image_w (tiffl (example_level 0 4000))) = 4000"
  by (simp add: example_open_one_level wider_untagged_file_def)
     (simp add: tiled_dir_def opened_one_level_def new_osr_def example_level_def)

text \<open>
  C5, amended. If \<^verbatim>\<open>g_ptr_array_sort\<close> sorts (whatever it does with equal widths), then
  after every successful open the level list is non-empty, \<^verbatim>\<open>level_count\<close> is its
  length, and its widths are non-increasing. It holds exactly the levels of the file's
  tiled directories whose subfile-type tag is readable, one for each of them, so its
  first element is at least as wide as every one of those; tiled directories without
  that tag are not among the levels.
\<close>

theorem levels_sorted_by_width:
  assumes "sorts_by_width (ptr_array_sort h)"
    and "huron_open h o_s fn tlike qh = Returns_true s'"
  shows "\<exists>lv d rest. levels (osr s') = Some lv \<and> lv \<noteq> [] \<and>
           level_count (osr s') = int (length lv) \<and>
           sorted_wrt (\<lambda>a b. sint (image_w (tiffl b)) \<le> sint (image_w (tiffl a))) lv \<and>
           tiffcache_get h fn = Inr (d, rest) \<and>
           mset lv = mset (tagged_tiled_levels h 0 (d # rest)) \<and>
           length lv = length (filter (\<lambda>x. subfiletype x \<noteq> None \<and> tiled x) (d # rest)) \<and>
           (\<forall>l\<in>set (tagged_tiled_levels h 0 (d # rest)).
              sint (image_w (tiffl l)) \<le> sint (image_w (tiffl (hd lv))))"
proof -
  from huron_open_Returns_trueD [OF assms(2)]
  obtain d rest s props qh' where
    get: "tiffcache_get h fn = Inr (d, rest)" and
    scan: "scan_directories h fn 0 d rest (loop_entry o_s qh) = Proceed s" and
    ne: "level_array s \<noteq> []" and
    init: "init_properties_and_hash h tlike qh
             (dir (tiffl (ptr_array_sort h width_compare (level_array s)
                            ! (length (level_array s) - 1))))
             0 (properties o_s) = Inr (props, qh')" and
    q: "quickhash1 s' = qh'" and
    o: "osr s' = huron_set_props h
                      ((osr s)\<lparr>properties := props,
                               levels := Some (ptr_array_sort h width_compare (level_array s)),
                               level_count := int (length (level_array s)),
                               ops_data := Some \<lparr>tc = fn\<rparr>,
                               ops := Some Huron_ops\<rparr>) tlike 0"
    by blast
  let ?lv = "ptr_array_sort h width_compare (level_array s)"
  note facts = sorts_by_width_facts [OF assms(1), of "level_array s"]
  have arr: "level_array s = tagged_tiled_levels h 0 (d # rest)"
    using scan_levels [OF scan] by (simp add: loop_entry_def)
  have lv: "levels (osr s') = Some ?lv" "level_count (osr s') = int (length ?lv)"
    by (simp_all add: o huron_set_props_fields facts(1))
  have ne': "?lv \<noteq> []" using ne facts(1) by (metis length_0_conv)
  have hd: "\<forall>l\<in>set (tagged_tiled_levels h 0 (d # rest)).
              sint (image_w (tiffl l)) \<le> sint (image_w (tiffl (hd ?lv)))"
    using sorted_wrt_hd_greatest [OF facts(3)] facts(2) arr by auto
  have ms: "mset ?lv = mset (tagged_tiled_levels h 0 (d # rest))"
    using assms(1) arr by (simp add: sorts_by_width_def)
  have cnt: "length ?lv = length (filter (\<lambda>x. subfiletype x \<noteq> None \<and> tiled x) (d # rest))"
    using scan_level_count [OF scan] arr facts(1) by simp
  from lv ne' facts(3) hd get ms cnt show ?thesis by blast
qed

theorem levels_sorted_by_width_witness:
  "sorts_by_width (ptr_array_sort (example_host three_level_file)) \<and>
   huron_open (example_host three_level_file) new_osr ''a.tif'' [] []
     = Returns_true opened_three_levels \<and>
   levels (osr opened_three_levels)
     = Some [example_level 1 4000, example_level 0 1000, example_level 2 500] \<and>
   tagged_tiled_levels (example_host three_level_file) 0
       [tiled_dir (Some 0) 1000 7, tiled_dir (Some 1) 4000 7, tiled_dir (Some 1) 500 7]
     = [example_level 0 1000, example_level 1 4000, example_level 2 500] \<and>
   sorted_wrt (\<lambda>a b. sint (image_w (tiffl b)) \<le> sint (image_w (tiffl a)))
     [example_level 1 4000, example_level 0 1000, example_level 2 500] \<and>
   map (\<lambda>l. sint (image_w (tiffl l)))
     [example_level 1 4000, example_level 0 1000, example_level 2 500] = [4000, 1000, 500]"
proof -
  have lv: "levels (osr opened_three_levels)
     = Some [example_level 1 4000, example_level 0 1000, example_level 2 500]"
    by (simp add: opened_three_levels_def new_osr_def)
  have tg: "tagged_tiled_levels (example_host three_level_file) 0
       [tiled_dir (Some 0) 1000 7, tiled_dir (Some 1) 4000 7, tiled_dir (Some 1) 500 7]
     = [example_level 0 1000, example_level 1 4000, example_level 2 500]"
    by (simp add: level_of_def tiled_dir_def example_host_def geometry_of_def example_level_def)
  from levels_sorted_by_width [OF example_host_sorts example_open_three_levels]
  obtain lv' where "levels (osr opened_three_levels) = Some lv'"
    "sorted_wrt (\<lambda>a b. sint (image_w (tiffl b)) \<le> sint (image_w (tiffl a))) lv'"
    by blast
  with lv have s: "sorted_wrt (\<lambda>a b. sint (image_w (tiffl b)) \<le> sint (image_w (tiffl a)))
     [example_level 1 4000, example_level 0 1000, example_level 2 500]" by simp
  have w: "map (\<lambda>l. sint (image_w (tiffl l)))
     [example_level 1 4000, example_level 0 1000, example_level 2 500] = [4000, 1000, 500]"
    by (simp add: example_level_def)
  from example_host_sorts example_open_three_levels lv tg s w show ?thesis by blast
qed

text \<open>
  C6. If \<^verbatim>\<open>g_ptr_array_sort\<close> sorts, the directory given to
  \<^verbatim>\<open>_openslide_tifflike_init_properties_and_hash\<close> as the lowest-resolution level is
  the directory of the last element of the sorted level list, which is no wider than
  any level: a successful open carries the hash which that call returned for it (with
  property directory 0 and the incoming hash and properties), and when that call fails
  the open returns false with its error.
\<close>

theorem hash_directory_is_last_level:
  assumes "sorts_by_width (ptr_array_sort h)"
  shows "(huron_open h o_s fn tlike qh = Returns_true s' \<longrightarrow>
           (\<exists>lv props. levels (osr s') = Some lv \<and> lv \<noteq> [] \<and>
              init_properties_and_hash h tlike qh (dir (tiffl (last lv))) 0 (properties o_s)
                = Inr (props, quickhash1 s') \<and>
              (\<forall>l\<in>set lv. sint (image_w (tiffl (last lv))) \<le> sint (image_w (tiffl l))))) \<and>
         (tiffcache_get h fn = Inr (d, rest) \<and>
          scan_directories h fn 0 d rest (loop_entry o_s qh) = Proceed s \<and>
          level_array s \<noteq> [] \<and>
          init_properties_and_hash h tlike qh
            (dir (tiffl (last (ptr_array_sort h width_compare (level_array s)))))
            0 (properties o_s) = Inl e \<longrightarrow>
           (\<exists>s''. huron_open h o_s fn tlike qh = Returns_false e s''))"
proof (intro conjI impI)
  assume ok: "huron_open h o_s fn tlike qh = Returns_true s'"
  from huron_open_Returns_trueD [OF ok]
  obtain d0 rest0 s0 props qh' where
    get: "tiffcache_get h fn = Inr (d0, rest0)" and
    scan: "scan_directories h fn 0 d0 rest0 (loop_entry o_s qh) = Proceed s0" and
    ne: "level_array s0 \<noteq> []" and
    init: "init_properties_and_hash h tlike qh
             (dir (tiffl (ptr_array_sort h width_compare (level_array s0)
                            ! (length (level_array s0) - 1))))
             0 (properties o_s) = Inr (props, qh')" and
    q: "quickhash1 s' = qh'" and
    o: "osr s' = huron_set_props h
                      ((osr s0)\<lparr>properties := props,
                               levels := Some (ptr_array_sort h width_compare (level_array s0)),
                               level_count := int (length (level_array s0)),
                               ops_data := Some \<lparr>tc = fn\<rparr>,
                               ops := Some Huron_ops\<rparr>) tlike 0"
    by blast
  let ?lv = "ptr_array_sort h width_compare (level_array s0)"
  note facts = sorts_by_width_facts [OF assms, of "level_array s0"]
  have ne': "?lv \<noteq> []" using ne facts(1) by (metis length_0_conv)
  have last: "?lv ! (length (level_array s0) - 1) = last ?lv"
    using ne' facts(1) by (simp add: last_conv_nth)
  have lv: "levels (osr s') = Some ?lv" by (simp add: o huron_set_props_fields)
  have least: "\<forall>l\<in>set ?lv. sint (image_w (tiffl (last ?lv))) \<le> sint (image_w (tiffl l))"
    using sorted_wrt_last_least [OF facts(3)] by blast
  from lv ne' init q last least
  show "\<exists>lv props. levels (osr s') = Some lv \<and> lv \<noteq> [] \<and>
              init_properties_and_hash h tlike qh (dir (tiffl (last lv))) 0 (properties o_s)
                = Inr (props, quickhash1 s') \<and>
              (\<forall>l\<in>set lv. sint (image_w (tiffl (last lv))) \<le> sint (image_w (tiffl l)))"
    by auto
next
  assume a: "tiffcache_get h fn = Inr (d, rest) \<and>
          scan_directories h fn 0 d rest (loop_entry o_s qh) = Proceed s \<and>
          level_array s \<noteq> [] \<and>
          init_properties_and_hash h tlike qh
            (dir (tiffl (last (ptr_array_sort h width_compare (level_array s)))))
            0 (properties o_s) = Inl e"
  let ?lv = "ptr_array_sort h width_compare (level_array s)"
  note facts = sorts_by_width_facts [OF assms, of "level_array s"]
  have ne': "?lv \<noteq> []" using a facts(1) by (metis length_0_conv)
  have last: "?lv ! (length (level_array s) - 1) = last ?lv"
    using ne' facts(1) by (simp add: last_conv_nth)
  from scan_frame [of h fn 0 d rest "loop_entry o_s qh" s] a
  have fr: "quickhash1 s = qh" "properties (osr s) = properties o_s"
    by (simp_all add: loop_entry_def)
  from a fr last show "\<exists>s''. huron_open h o_s fn tlike qh = Returns_false e s''"
    by (simp add: huron_open_scan huron_FAIL_def)
qed

theorem hash_directory_is_last_level_witness:
  "sorts_by_width (ptr_array_sort (example_host three_level_file)) \<and>
   huron_open (example_host three_level_file) new_osr ''a.tif'' [] []
     = Returns_true opened_three_levels \<and>
   dir (tiffl (last [example_level 1 4000, example_level 0 1000, example_level 2 500])) = 2 \<and>
   init_properties_and_hash (example_host three_level_file) [] [] 2 0 (properties new_osr)
     = Inr (properties new_osr, quickhash1 opened_three_levels)"
proof -
  have lv: "levels (osr opened_three_levels)
     = Some [example_level 1 4000, example_level 0 1000, example_level 2 500]"
    by (simp add: opened_three_levels_def new_osr_def)
  have d2: "dir (tiffl (last [example_level 1 4000, example_level 0 1000, example_level 2 500])) = 2"
    by (simp add: example_level_def)
  from hash_directory_is_last_level [OF example_host_sorts, of three_level_file new_osr "''a.tif''"
         "[]" "[]" opened_three_levels]
       example_open_three_levels
  obtain lv' props where "levels (osr opened_three_levels) = Some lv'"
    "init_properties_and_hash (example_host three_level_file) [] [] (dir (tiffl (last lv'))) 0
       (properties new_osr) = Inr (props, quickhash1 opened_three_levels)"
    by blast
  with lv d2 have "init_properties_and_hash (example_host three_level_file) [] [] 2 0
       (properties new_osr) = Inr (props, quickhash1 opened_three_levels)" by simp
  moreover from this have "props = properties new_osr" by (simp add: example_host_def)
  ultimately show ?thesis using example_host_sorts example_open_three_levels d2 by simp
qed

subsection \<open>The microns-per-pixel property\<close>

lemma example_open_two_levels:
  "huron_open (example_host two_level_file) new_osr ''a.tif'' two_level_tifflike []
     = Returns_true opened_two_levels"
  by (auto simp: open_eval opened_two_levels_def two_level_file_def two_level_tifflike_def
                 tifflike_dir_of_def TIFFTAG_RESOLUTIONUNIT_def TIFFTAG_XRESOLUTION_def
                 RESUNIT_CENTIMETER_def OPENSLIDE_PROPERTY_NAME_MPP_X_def)

text \<open>
  C3, as stated, fails: the resolution is read from directory 0 (line 396 passes 0),
  not from the directory of the coarsest level. In the file below the coarsest level
  is directory 1 (the hash is taken from it), whose resolution unit is absent, so by
  the claim nothing would be published; the open publishes 20 from directory 0.
\<close>

theorem mpp_published_from_directory_0:
  "tifflike_get_uint two_level_tifflike 1 TIFFTAG_RESOLUTIONUNIT = Inl no_such_value \<and>
   huron_open (example_host two_level_file) new_osr ''a.tif'' two_level_tifflike []
     = Returns_true opened_two_levels \<and>
   quickhash1 opened_two_levels = [1] \<and>
   properties (osr opened_two_levels) OPENSLIDE_PROPERTY_NAME_MPP_X = Some ''20''"
  by (simp add: example_open_two_levels)
     (simp add: opened_two_levels_def OPENSLIDE_PROPERTY_NAME_MPP_X_def tifflike_get_uint_def
                two_level_tifflike_def tifflike_dir_of_def)

text \<open>
  C3, amended. After a successful open the properties are those the host's extraction
  routine returned (called with property directory 0), changed in at most one way: if
  the resolution unit of directory 0 is readable and is centimetre, and the X
  resolution of directory 0 is readable, the microns-per-pixel property is set to the
  formatted quotient \<^verbatim>\<open>10000.0 / res\<close> of that resolution, as the C implementation
  divides doubles. If the unit is absent (it then defaults to inch), is unreadable, or
  is any other unit, or the resolution is unreadable, nothing is published.
\<close>

theorem mpp_from_directory_0:
  assumes "huron_open h o_s fn tlike qh = Returns_true s'"
  shows "\<exists>props low.
            init_properties_and_hash h tlike qh low 0 (properties o_s)
              = Inr (props, quickhash1 s') \<and>
            properties (osr s') =
              (case tifflike_get_uint tlike 0 TIFFTAG_RESOLUTIONUNIT of
                 Inl e \<Rightarrow> props
               | Inr u \<Rightarrow>
                   (case tifflike_get_float tlike 0 TIFFTAG_XRESOLUTION of
                      Inl e \<Rightarrow> props
                    | Inr res \<Rightarrow>
                        if u = RESUNIT_CENTIMETER
                        then props(OPENSLIDE_PROPERTY_NAME_MPP_X \<mapsto>
                                     format_double h (double_divide h double_10000 res))
                        else props))"
proof -
  from huron_open_Returns_trueD [OF assms]
  obtain d rest s props qh' where
    get: "tiffcache_get h fn = Inr (d, rest)" and
    scan: "scan_directories h fn 0 d rest (loop_entry o_s qh) = Proceed s" and
    init: "init_properties_and_hash h tlike qh
             (dir (tiffl (ptr_array_sort h width_compare (level_array s)
                            ! (length (level_array s) - 1))))
             0 (properties o_s) = Inr (props, qh')" and
    q: "quickhash1 s' = qh'" and
    o: "osr s' = huron_set_props h
                      ((osr s)\<lparr>properties := props,
                               levels := Some (ptr_array_sort h width_compare (level_array s)),
                               level_count := int (length (level_array s)),
                               ops_data := Some \<lparr>tc = fn\<rparr>,
                               ops := Some Huron_ops\<rparr>) tlike 0"
    by blast
  have inch: "RESUNIT_INCH \<noteq> RESUNIT_CENTIMETER"
    by (simp add: RESUNIT_INCH_def RESUNIT_CENTIMETER_def)
  have "properties (osr s') =
              (case tifflike_get_uint tlike 0 TIFFTAG_RESOLUTIONUNIT of
                 Inl e \<Rightarrow> props
               | Inr u \<Rightarrow>
                   (case tifflike_get_float tlike 0 TIFFTAG_XRESOLUTION of
                      Inl e \<Rightarrow> props
                    | Inr res \<Rightarrow>
                        if u = RESUNIT_CENTIMETER
                        then props(OPENSLIDE_PROPERTY_NAME_MPP_X \<mapsto>
                                     format_double h (double_divide h double_10000 res))
                        else props))"
    by (simp add: o huron_set_props_def huron_set_resolution_prop_def Let_def inch
             split: sum.splits)
  with init q show ?thesis by auto
qed

theorem mpp_from_directory_0_witness:
  "huron_open (example_host two_level_file) new_osr ''a.tif'' two_level_tifflike []
     = Returns_true opened_two_levels \<and>
   tifflike_get_uint two_level_tifflike 0 TIFFTAG_RESOLUTIONUNIT = Inr RESUNIT_CENTIMETER \<and>
   tifflike_get_float two_level_tifflike 0 TIFFTAG_XRESOLUTION = Inr double_500 \<and>
   double_divide (example_host two_level_file) double_10000 double_500 = double_20 \<and>
   properties (osr opened_two_levels)
     = [OPENSLIDE_PROPERTY_NAME_MPP_X \<mapsto>
          format_double (example_host two_level_file) double_20]"
proof -
  have u: "tifflike_get_uint two_level_tifflike 0 TIFFTAG_RESOLUTIONUNIT = Inr RESUNIT_CENTIMETER"
    by (simp add: tifflike_get_uint_def two_level_tifflike_def tifflike_dir_of_def)
  have r: "tifflike_get_float two_level_tifflike 0 TIFFTAG_XRESOLUTION = Inr double_500"
    by (simp add: tifflike_get_float_def two_level_tifflike_def tifflike_dir_of_def)
  have q: "double_divide (example_host two_level_file) double_10000 double_500 = double_20"
    by (simp add: example_host_def example_divide_def)
  from mpp_from_directory_0 [OF example_open_two_levels]
  obtain props low where
    i: "init_properties_and_hash (example_host two_level_file) two_level_tifflike [] low 0
          (properties new_osr) = Inr (props, quickhash1 opened_two_levels)" and
    p: "properties (osr opened_two_levels) =
          props(OPENSLIDE_PROPERTY_NAME_MPP_X \<mapsto>
                  format_double (example_host two_level_file) double_20)"
    by (auto simp: u r q)
  from i have "props = Map.empty" by (simp add: example_host_def new_osr_def)
  with p example_open_two_levels u r q show ?thesis by simp
qed

end
